theory Spec2Isabelle
  imports Complex_Main "HOL-Library.Char_ord" "HOL-Library.List_Lexorder" "HOL-Library.Sublist"
begin

section \<open>Python values used by the requester\<close>

text \<open>
  Python \<^verbatim>\<open>float\<close> values are modelled as exact reals: the quoting arithmetic of
  \<^verbatim>\<open>market_maker.py\<close> is read as the arithmetic it approximates. Exceptions are
  values of \<open>exn\<close>; a function that can raise returns \<open>exn + 'a\<close>.
\<close>

datatype exn =
    KeyError string
  | ZeroDivisionError
  | ValueError string
  | RuntimeError string
  | AgentMarketError string
  | RequestException string
  | JSONDecodeError string
  | AttributeError string
  | ProviderFailure string
  | ExchangeFailure string

text \<open>
  \<^verbatim>\<open>round(x)\<close> rounds to the nearest integer, a tie going to the even neighbour;
  \<^verbatim>\<open>round(x, n)\<close> does the same at the \<open>n\<close>-th decimal.
\<close>

definition py_round :: "real \<Rightarrow> int" where
  "py_round x =
     (let f = \<lfloor>x\<rfloor>; d = x - of_int f
      in if d < 1 / 2 then f
         else if 1 / 2 < d then f + 1
         else if even f then f else f + 1)"

definition py_round_ndigits :: "real \<Rightarrow> int \<Rightarrow> real" where
  "py_round_ndigits x n =
     (if 0 \<le> n then of_int (py_round (x * 10 ^ nat n)) / 10 ^ nat n
      else of_int (py_round (x / 10 ^ nat (- n))) * 10 ^ nat (- n))"

section \<open>The quote calculator (\<^verbatim>\<open>market_maker.py\<close>)\<close>

text \<open>
  The \<^verbatim>\<open>parameters\<close> and \<^verbatim>\<open>strategyRecommendations\<close> dictionaries of an analysis.
  A field is \<open>None\<close> when the key is absent from the dictionary.
\<close>

record params =
  gamma :: "real option"
  sigma :: "real option"
  kappa :: "real option"
  timeHorizon :: "real option"
  inventoryRiskWeight :: "real option"

record recommendations =
  maxPosition :: "real option"
  minSpread :: "real option"
  maxSpread :: "real option"

record analysis =
  parameters :: params
  strategyRecommendations :: recommendations

record StrategySettings =
  portfolio_value :: real
  min_order_value :: real
  primary_markets :: "string list"

definition subscript :: "string \<Rightarrow> 'a option \<Rightarrow> exn + 'a" where
  "subscript k v = (case v of None \<Rightarrow> Inl (KeyError k) | Some x \<Rightarrow> Inr x)"

text \<open>\<^verbatim>\<open>params.get("inventoryRiskWeight", 0.2)\<close>\<close>

definition inv_weight_of :: "params \<Rightarrow> real" where
  "inv_weight_of p = (case inventoryRiskWeight p of None \<Rightarrow> 2 / 10 | Some w \<Rightarrow> w)"

definition calculate_spreads :: "params \<Rightarrow> real \<Rightarrow> real \<Rightarrow> exn + real \<times> real" where
  "calculate_spreads p current_inventory max_inventory =
     (case subscript ''gamma'' (gamma p) of Inl e \<Rightarrow> Inl e | Inr g \<Rightarrow>
      case subscript ''sigma'' (sigma p) of Inl e \<Rightarrow> Inl e | Inr s \<Rightarrow>
      case subscript ''timeHorizon'' (timeHorizon p) of Inl e \<Rightarrow> Inl e | Inr th \<Rightarrow>
        (let T = th / 60;
             inv_weight = inv_weight_of p;
             base_spread = g * s * s * T;
             inventory_ratio = (if max_inventory \<noteq> 0 then current_inventory / max_inventory else 0);
             inventory_skew = inv_weight * inventory_ratio
         in Inr (base_spread - inventory_skew, base_spread + inventory_skew)))"

definition clamp_spread :: "real \<Rightarrow> real \<Rightarrow> real \<Rightarrow> real" where
  "clamp_spread min_spread max_spread spread = max min_spread (min spread max_spread)"

definition round_size :: "real \<Rightarrow> int \<Rightarrow> real" where
  "round_size size_raw decimals = py_round_ndigits size_raw decimals"

definition round_price :: "real \<Rightarrow> string \<Rightarrow> real" where
  "round_price price symbol =
     (if 10000 \<le> price then of_int (py_round (price / 10) * 10)
      else if 100 \<le> price then of_int (py_round price)
      else if 10 \<le> price then py_round_ndigits price 1
      else if 1 \<le> price then py_round_ndigits price 2
      else py_round_ndigits price 4)"

text \<open>
  Lines 114 to 119 of \<^verbatim>\<open>run_cycle\<close>: the two spreads, each clamped, and the two
  rounded prices.
\<close>

record quote =
  bid_spread :: real
  ask_spread :: real
  bid_price :: real
  ask_price :: real

definition clamped_spreads :: "params \<Rightarrow> real \<Rightarrow> real \<Rightarrow> real \<Rightarrow> real \<Rightarrow> exn + real \<times> real" where
  "clamped_spreads p current_inventory max_position min_spread max_spread =
     (case calculate_spreads p current_inventory max_position of
        Inl e \<Rightarrow> Inl e
      | Inr (b, a) \<Rightarrow> Inr (clamp_spread min_spread max_spread b, clamp_spread min_spread max_spread a))"

definition quote_prices ::
  "params \<Rightarrow> string \<Rightarrow> real \<Rightarrow> real \<Rightarrow> real \<Rightarrow> real \<Rightarrow> real \<Rightarrow> exn + quote" where
  "quote_prices p symbol mid_price current_inventory max_position min_spread max_spread =
     (case clamped_spreads p current_inventory max_position min_spread max_spread of
        Inl e \<Rightarrow> Inl e
      | Inr (b, a) \<Rightarrow>
          Inr \<lparr>bid_spread = b, ask_spread = a,
               bid_price = round_price (mid_price * (1 - b)) symbol,
               ask_price = round_price (mid_price * (1 + a)) symbol\<rparr>)"

definition example_params :: params where
  "example_params =
     \<lparr>gamma = Some (2 / 10), sigma = Some (3 / 10), kappa = Some 1,
      timeHorizon = Some 60, inventoryRiskWeight = Some (2 / 10)\<rparr>"

section \<open>Snapshots and the snapshot builder\<close>

record SymbolSnapshot =
  symbol :: string
  mid_price :: real
  sz_decimals :: int
  inventory :: real
  change_24h :: "real option"
  notional_liquidity :: "real option"

text \<open>
  A ticker dictionary, as \<^verbatim>\<open>get_tickers\<close> builds it and as the cycle reads it: the keys
  \<^verbatim>\<open>price\<close>, \<^verbatim>\<open>mid\<close> and \<^verbatim>\<open>szDecimals\<close>, each \<open>None\<close> when absent. The
  dictionary with no key at all is the empty one, which Python treats as false.
\<close>

record ticker =
  price :: "real option"
  mid :: "real option"
  szDecimals :: "int option"

definition ticker_falsy :: "ticker option \<Rightarrow> bool" where
  "ticker_falsy t =
     (case t of None \<Rightarrow> True
      | Some d \<Rightarrow> price d = None \<and> mid d = None \<and> szDecimals d = None)"

text \<open>Truth value of an optional number: \<^verbatim>\<open>None\<close> and zero are false.\<close>

definition truthy :: "real option \<Rightarrow> bool" where
  "truthy v = (case v of None \<Rightarrow> False | Some x \<Rightarrow> x \<noteq> 0)"

text \<open>\<^verbatim>\<open>ticker.get("price") or ticker.get("mid")\<close>\<close>

definition price_or_mid :: "ticker \<Rightarrow> real option" where
  "price_or_mid d = (if truthy (price d) then price d else mid d)"

definition COINGECKO_ID_MAP :: "(string \<times> string) list" where
  "COINGECKO_ID_MAP =
     [(''BTC-PERP'', ''bitcoin''), (''ETH-PERP'', ''ethereum''), (''SOL-PERP'', ''solana''),
      (''ARB-PERP'', ''arbitrum''), (''AVAX-PERP'', ''avalanche-2''), (''OP-PERP'', ''optimism'')]"

text \<open>
  What the price-change service answers. The request fails with a
  \<^verbatim>\<open>requests.RequestException\<close> (caught); or the body is not JSON, which
  \<^verbatim>\<open>response.json()\<close> raises on outside the \<^verbatim>\<open>try\<close>; or the body is JSON but no
  dictionary, which has no \<^verbatim>\<open>get\<close>; or it is a dictionary from Coingecko ids to
  entries. An entry is a dictionary with an optional \<^verbatim>\<open>usd_24h_change\<close>, or a value of
  another shape, which has no \<^verbatim>\<open>get\<close> either.
\<close>

datatype cg_entry = CgEntry "real option" | CgNotDict

datatype coingecko =
    CoingeckoFailed string
  | CoingeckoNotJson string
  | CoingeckoNotDict
  | CoingeckoData "string \<Rightarrow> cg_entry option"

text \<open>The loop over \<^verbatim>\<open>COINGECKO_ID_MAP.items()\<close>, with the output built so far.\<close>

fun changes_loop ::
  "string list \<Rightarrow> (string \<Rightarrow> cg_entry option) \<Rightarrow> (string \<Rightarrow> real option) \<Rightarrow>
   (string \<times> string) list \<Rightarrow> exn + (string \<Rightarrow> real option)" where
  "changes_loop symbols data output [] = Inr output"
| "changes_loop symbols data output ((s, cg_id) # rest) =
     (if \<not> List.member symbols s then changes_loop symbols data output rest
      else case data cg_id of
        None \<Rightarrow> changes_loop symbols data output rest
      | Some CgNotDict \<Rightarrow> Inl (AttributeError ''get'')
      | Some (CgEntry None) \<Rightarrow> changes_loop symbols data output rest
      | Some (CgEntry (Some change)) \<Rightarrow>
          changes_loop symbols data (output(s \<mapsto> change)) rest)"

definition fetch_24h_changes :: "string list \<Rightarrow> coingecko \<Rightarrow> exn + (string \<Rightarrow> real option)" where
  "fetch_24h_changes symbols cg =
     (if \<not> list_ex (\<lambda>s. map_of COINGECKO_ID_MAP s \<noteq> None) symbols then Inr Map.empty
      else case cg of
        CoingeckoFailed e \<Rightarrow> Inr Map.empty
      | CoingeckoNotJson e \<Rightarrow> Inl (JSONDecodeError e)
      | CoingeckoNotDict \<Rightarrow> Inl (AttributeError ''get'')
      | CoingeckoData data \<Rightarrow> changes_loop symbols data Map.empty COINGECKO_ID_MAP)"

fun snapshots_loop ::
  "(string \<Rightarrow> ticker option) \<Rightarrow> (string \<Rightarrow> real option) \<Rightarrow> (string \<Rightarrow> real option) \<Rightarrow>
   string list \<Rightarrow> SymbolSnapshot list" where
  "snapshots_loop ticker_map inventory_map changes [] = []"
| "snapshots_loop ticker_map inventory_map changes (s # rest) =
     (case ticker_map s of
        None \<Rightarrow> snapshots_loop ticker_map inventory_map changes rest
      | Some d \<Rightarrow>
          if ticker_falsy (Some d) then snapshots_loop ticker_map inventory_map changes rest
          else (case price_or_mid d of
             None \<Rightarrow> snapshots_loop ticker_map inventory_map changes rest
           | Some p \<Rightarrow>
               if p = 0 then snapshots_loop ticker_map inventory_map changes rest
               else \<lparr>symbol = s, mid_price = p,
                     sz_decimals = (case szDecimals d of None \<Rightarrow> 5 | Some n \<Rightarrow> n),
                     inventory = (case inventory_map s of None \<Rightarrow> 0 | Some q \<Rightarrow> q),
                     change_24h = changes s, notional_liquidity = None\<rparr>
                    # snapshots_loop ticker_map inventory_map changes rest))"

definition build_snapshots ::
  "StrategySettings \<Rightarrow> coingecko \<Rightarrow> (string \<Rightarrow> ticker option) \<Rightarrow> (string \<Rightarrow> real option) \<Rightarrow>
   exn + SymbolSnapshot list" where
  "build_snapshots settings cg ticker_map inventory_map =
     (case fetch_24h_changes (primary_markets settings) cg of
        Inl e \<Rightarrow> Inl e
      | Inr changes \<Rightarrow>
          Inr (snapshots_loop ticker_map inventory_map changes (primary_markets settings)))"

section \<open>Analysis acquisition with a fallback provider\<close>

text \<open>
  A provider is its \<^verbatim>\<open>fetch_analysis\<close> method: it returns an analysis or raises. The
  call log names the provider called and the snapshots it was given, in call order.
\<close>

datatype provider_slot = Primary | Fallback

type_synonym 'a provider = "SymbolSnapshot list \<Rightarrow> exn + 'a"

definition fetch_analysis ::
  "'a provider \<Rightarrow> 'a provider option \<Rightarrow> SymbolSnapshot list \<Rightarrow>
   (exn + 'a) \<times> (provider_slot \<times> SymbolSnapshot list) list" where
  "fetch_analysis analysis_provider fallback_provider snapshots =
     (case analysis_provider snapshots of
        Inr a \<Rightarrow> (Inr a, [(Primary, snapshots)])
      | Inl exc \<Rightarrow>
          (case fallback_provider of
             None \<Rightarrow> (Inl exc, [(Primary, snapshots)])
           | Some fb \<Rightarrow> (fb snapshots, [(Primary, snapshots), (Fallback, snapshots)])))"

section \<open>Strings\<close>

text \<open>
  A Python string is modelled as a list of code points below 256, one \<open>char\<close> each.
  \<^verbatim>\<open>str.upper\<close> and \<^verbatim>\<open>str.lower\<close> map the ASCII letters and the accented letters
  of that range; the sharp s (223) becomes \<open>SS\<close>. The micro sign (181) and the y with
  diaeresis (255) have their upper-case forms beyond code point 255 and are left as they
  are. \<^verbatim>\<open>str.strip\<close> removes the code points that \<^verbatim>\<open>str.isspace\<close> accepts from both
  ends.
\<close>

definition char_upper :: "char \<Rightarrow> string" where
  "char_upper c =
     (let n = (of_char c :: nat)
      in if 97 \<le> n \<and> n \<le> 122 then [char_of (n - 32)]
         else if n = 223 then ''SS''
         else if 224 \<le> n \<and> n \<le> 254 \<and> n \<noteq> 247 then [char_of (n - 32)]
         else [c])"

definition char_lower :: "char \<Rightarrow> char" where
  "char_lower c =
     (let n = (of_char c :: nat)
      in if 65 \<le> n \<and> n \<le> 90 then char_of (n + 32)
         else if 192 \<le> n \<and> n \<le> 222 \<and> n \<noteq> 215 then char_of (n + 32)
         else c)"

definition upper :: "string \<Rightarrow> string" where
  "upper s = concat (map char_upper s)"

definition lower :: "string \<Rightarrow> string" where
  "lower s = map char_lower s"

definition isspace :: "char \<Rightarrow> bool" where
  "isspace c =
     (let n = (of_char c :: nat)
      in (9 \<le> n \<and> n \<le> 13) \<or> (28 \<le> n \<and> n \<le> 32) \<or> n = 133 \<or> n = 160)"

definition strip :: "string \<Rightarrow> string" where
  "strip s = rev (dropWhile isspace (rev (dropWhile isspace s)))"

text \<open>A text between single quotes, as the messages of the exceptions show it.\<close>

definition quoted :: "string \<Rightarrow> string" where
  "quoted s = CHR 0x27 # s @ [CHR 0x27]"

definition endswith :: "string \<Rightarrow> string \<Rightarrow> bool" where
  "endswith s ending =
     (length ending \<le> length s \<and> drop (length s - length ending) s = ending)"

section \<open>The exchange client (\<^verbatim>\<open>hyperliquid_api.py\<close>)\<close>

text \<open>
  One call of the SDK's \<^verbatim>\<open>Exchange.order\<close>. The exchange is outside the program: it
  answers a call, given the calls made before it, with a response or an exception.
\<close>

record exchange_call =
  coin :: string
  is_buy :: bool
  sz :: real
  limit_px :: real
  tif :: string
  reduce_only :: bool

type_synonym response = string

type_synonym exchange = "exchange_call list \<Rightarrow> exchange_call \<Rightarrow> exn + response"

text \<open>An entry of the list \<^verbatim>\<open>get_positions\<close> returns.\<close>

record position =
  pos_coin :: string
  pos_symbol :: string
  pos_szi :: real

text \<open>
  The client, seen from its callers: what \<^verbatim>\<open>get_positions\<close> and \<^verbatim>\<open>get_tickers\<close>
  return, and the exchange handle, \<open>None\<close> when no private key is configured.
\<close>

record HyperliquidClient =
  get_positions :: "position list"
  get_tickers :: "string \<Rightarrow> ticker option"
  exchange_handle :: "exchange option"

definition symbol_to_coin :: "string \<Rightarrow> string" where
  "symbol_to_coin symb =
     (let name = upper symb
      in if endswith name ''-PERP'' then take (length name - 5) name else name)"

definition normalize_tif :: "string \<Rightarrow> exn + string" where
  "normalize_tif v =
     (let k = upper (strip (if v = [] then ''GTC'' else v))
      in if k = ''GTC'' then Inr ''Gtc''
         else if k = ''IOC'' then Inr ''Ioc''
         else if k = ''ALO'' then Inr ''Alo''
         else Inl (ValueError (''Unsupported time-in-force '' @ quoted v)))"

definition require_exchange :: "HyperliquidClient \<Rightarrow> exn + exchange" where
  "require_exchange client =
     (case exchange_handle client of
        None \<Rightarrow> Inl (ValueError ''HYPERLIQUID_PRIVATE_KEY must be configured to submit orders'')
      | Some ex \<Rightarrow> Inr ex)"

text \<open>
  \<^verbatim>\<open>place_order\<close> returns its result together with the calls made to the exchange so
  far, the new call appended when the exchange was reached.
\<close>

definition place_order ::
  "HyperliquidClient \<Rightarrow> exchange_call list \<Rightarrow> string \<Rightarrow> string \<Rightarrow> real \<Rightarrow> string \<Rightarrow>
   real option \<Rightarrow> string \<Rightarrow> bool \<Rightarrow> (exn + response) \<times> exchange_call list" where
  "place_order client calls symb action quantity order_type limit_price tif_arg reduce =
     (let otype = upper order_type;
          c = symbol_to_coin symb;
          buy = (upper action = ''BUY'')
      in if otype \<noteq> ''LMT'' \<and> otype \<noteq> ''LIMIT'' then
           (Inl (ValueError (''Unsupported order type '' @ quoted otype @
                               '' for Hyperliquid exchange API'')), calls)
         else case limit_price of
           None \<Rightarrow> (Inl (ValueError ''limit_price is required for limit orders''), calls)
         | Some px \<Rightarrow>
            (case require_exchange client of
               Inl e \<Rightarrow> (Inl e, calls)
             | Inr ex \<Rightarrow>
                (case normalize_tif tif_arg of
                   Inl e \<Rightarrow> (Inl e, calls)
                 | Inr t \<Rightarrow>
                    (let call = \<lparr>coin = c, is_buy = buy, sz = quantity, limit_px = px,
                                 tif = t, reduce_only = reduce\<rparr>
                     in (ex calls call, calls @ [call])))))"

section \<open>Order sizing and the quoting cycle\<close>

text \<open>
  \<^verbatim>\<open>calculate_position_size\<close>, in the order of the source: the capital bound (where
  a zero price raises), the early return for a non-positive position limit, the
  inventory factor, and the minimum-quantity test on the product \<^verbatim>\<open>qty\<close>.
\<close>

definition inventory_factor :: "string \<Rightarrow> real \<Rightarrow> real \<Rightarrow> real" where
  "inventory_factor side current_inventory max_position =
     (if side = ''bid'' \<and> 0 < current_inventory
        then max (3 / 10) (1 - \<bar>current_inventory\<bar> / max_position)
      else if side = ''ask'' \<and> current_inventory < 0
        then max (3 / 10) (1 - \<bar>current_inventory\<bar> / max_position)
      else 1)"

definition max_qty_by_capital :: "StrategySettings \<Rightarrow> real \<Rightarrow> real" where
  "max_qty_by_capital settings px =
     (let capital_per_market =
            portfolio_value settings / real (max (length (primary_markets settings)) 1);
          max_notional = capital_per_market * (5 / 10)
      in max_notional / px)"

definition qty_before_minimum :: "real \<Rightarrow> real \<Rightarrow> real \<Rightarrow> StrategySettings \<Rightarrow> string \<Rightarrow> real" where
  "qty_before_minimum px max_position current_inventory settings side =
     (let max_qty = min (max_qty_by_capital settings px) max_position
      in max_qty * inventory_factor side current_inventory max_position)"

definition calculate_position_size ::
  "string \<Rightarrow> real \<Rightarrow> real \<Rightarrow> real \<Rightarrow> StrategySettings \<Rightarrow> string \<Rightarrow> exn + real" where
  "calculate_position_size symb px max_position current_inventory settings side =
     (if px = 0 then Inl ZeroDivisionError
      else if max_position \<le> 0 then Inr 0
      else
       (let qty = qty_before_minimum px max_position current_inventory settings side;
            min_qty = min_order_value settings / px
        in if qty < min_qty then Inr 0 else Inr qty))"

record cycle_state =
  orders_placed :: nat
  orders_skipped :: nat
  exchange_calls :: "exchange_call list"

definition initial_state :: cycle_state where
  "initial_state = \<lparr>orders_placed = 0, orders_skipped = 0, exchange_calls = []\<rparr>"

definition skip_symbol :: "cycle_state \<Rightarrow> cycle_state" where
  "skip_symbol st = st\<lparr>orders_skipped := orders_skipped st + 1\<rparr>"

text \<open>
  The two submissions of the live branch, inside the \<^verbatim>\<open>try\<close>: the sell is attempted
  only after the buy returned, and the counter moves only after both returned.
\<close>

definition submit_pair ::
  "HyperliquidClient \<Rightarrow> cycle_state \<Rightarrow> string \<Rightarrow> real \<Rightarrow> real \<Rightarrow> real \<Rightarrow> real \<Rightarrow> cycle_state" where
  "submit_pair client st symb bid_qty bid_px ask_qty ask_px =
     (case place_order client (exchange_calls st) symb ''BUY'' bid_qty ''LMT'' (Some bid_px) ''GTC'' False of
        (Inl e, calls1) \<Rightarrow> st\<lparr>exchange_calls := calls1\<rparr>
      | (Inr r, calls1) \<Rightarrow>
          (case place_order client calls1 symb ''SELL'' ask_qty ''LMT'' (Some ask_px) ''GTC'' False of
             (Inl e, calls2) \<Rightarrow> st\<lparr>exchange_calls := calls2\<rparr>
           | (Inr r2, calls2) \<Rightarrow>
               st\<lparr>orders_placed := orders_placed st + 2, exchange_calls := calls2\<rparr>))"

text \<open>
  Lines 121 to 139 of \<^verbatim>\<open>run_cycle\<close>: the two raw sizes, then each rounded to the
  ticker's size decimals.
\<close>

definition order_sizes ::
  "string \<Rightarrow> real \<Rightarrow> real \<Rightarrow> real \<Rightarrow> StrategySettings \<Rightarrow> int \<Rightarrow> exn + real \<times> real" where
  "order_sizes symb mid_px max_position current_inventory settings decimals =
     (case calculate_position_size symb mid_px max_position current_inventory settings ''bid'' of
        Inl e \<Rightarrow> Inl e
      | Inr bid_qty_raw \<Rightarrow>
         (case calculate_position_size symb mid_px max_position current_inventory settings ''ask'' of
            Inl e \<Rightarrow> Inl e
          | Inr ask_qty_raw \<Rightarrow>
              Inr (round_size bid_qty_raw decimals, round_size ask_qty_raw decimals)))"

text \<open>The body of the \<^verbatim>\<open>for snapshot in snapshots\<close> loop of \<^verbatim>\<open>run_cycle\<close>.\<close>

definition cycle_body ::
  "HyperliquidClient \<Rightarrow> StrategySettings \<Rightarrow> bool \<Rightarrow> (string \<Rightarrow> ticker option) \<Rightarrow>
   params \<Rightarrow> real \<Rightarrow> real \<Rightarrow> real \<Rightarrow> cycle_state \<Rightarrow> SymbolSnapshot \<Rightarrow> exn + cycle_state" where
  "cycle_body client settings dry_run ticker_map p max_position min_spread max_spread st snapshot =
     (let symb = symbol snapshot
      in case ticker_map symb of
        None \<Rightarrow> Inr (skip_symbol st)
      | Some d \<Rightarrow>
         if ticker_falsy (Some d) then Inr (skip_symbol st)
         else (case price_or_mid d of
            None \<Rightarrow> Inr (skip_symbol st)
          | Some mid_px \<Rightarrow>
             if mid_px = 0 \<or> mid_px \<le> 0 then Inr (skip_symbol st)
             else
              (let decimals = (case szDecimals d of None \<Rightarrow> 5 | Some n \<Rightarrow> n);
                   current_inventory = inventory snapshot
               in case quote_prices p symb mid_px current_inventory max_position min_spread max_spread of
                 Inl e \<Rightarrow> Inl e
               | Inr q \<Rightarrow>
                  (case order_sizes symb mid_px max_position current_inventory settings decimals of
                     Inl e \<Rightarrow> Inl e
                   | Inr (bid_qty, ask_qty) \<Rightarrow>
                       if bid_qty = 0 \<or> ask_qty = 0 then Inr (skip_symbol st)
                       else if dry_run then Inr (st\<lparr>orders_placed := orders_placed st + 2\<rparr>)
                       else Inr (submit_pair client st symb bid_qty (bid_price q)
                                   ask_qty (ask_price q))))))"

fun cycle_loop ::
  "HyperliquidClient \<Rightarrow> StrategySettings \<Rightarrow> bool \<Rightarrow> (string \<Rightarrow> ticker option) \<Rightarrow>
   params \<Rightarrow> real \<Rightarrow> real \<Rightarrow> real \<Rightarrow> cycle_state \<Rightarrow> SymbolSnapshot list \<Rightarrow> exn + cycle_state" where
  "cycle_loop client settings dry_run ticker_map p max_position min_spread max_spread st [] = Inr st"
| "cycle_loop client settings dry_run ticker_map p max_position min_spread max_spread st (snapshot # rest) =
     (case cycle_body client settings dry_run ticker_map p max_position min_spread max_spread st snapshot of
        Inl e \<Rightarrow> Inl e
      | Inr st' \<Rightarrow>
          cycle_loop client settings dry_run ticker_map p max_position min_spread max_spread st' rest)"

fun build_inventory_map :: "position list \<Rightarrow> (string \<Rightarrow> real option)" where
  "build_inventory_map [] = Map.empty"
| "build_inventory_map (pos # rest) =
     (let symb = (if pos_symbol pos \<noteq> [] then pos_symbol pos
                 else if pos_coin pos \<noteq> [] then pos_coin pos @ ''-PERP'' else [])
      in if symb = [] then build_inventory_map rest
         else (\<lambda>k. case build_inventory_map rest k of
                 Some q \<Rightarrow> Some q
               | None \<Rightarrow> if k = symb then Some (pos_szi pos) else None))"

definition run_cycle ::
  "HyperliquidClient \<Rightarrow> analysis provider \<Rightarrow> analysis provider option \<Rightarrow> StrategySettings \<Rightarrow>
   coingecko \<Rightarrow> bool \<Rightarrow> exn + cycle_state" where
  "run_cycle client analysis_provider fallback_provider settings cg execute =
     (let dry_run = \<not> execute;
          inventory_map = build_inventory_map (get_positions client);
          ticker_map = get_tickers client
      in case build_snapshots settings cg ticker_map inventory_map of
        Inl e \<Rightarrow> Inl e
      | Inr snapshots \<Rightarrow>
         if snapshots = [] then
           Inl (RuntimeError ''No market snapshots available; check tickers or config'')
         else case fst (fetch_analysis analysis_provider fallback_provider snapshots) of
           Inl e \<Rightarrow> Inl e
         | Inr a \<Rightarrow>
            (let p = parameters a; recs = strategyRecommendations a
             in case subscript ''maxPosition'' (maxPosition recs) of Inl e \<Rightarrow> Inl e | Inr max_position \<Rightarrow>
                case subscript ''minSpread'' (minSpread recs) of Inl e \<Rightarrow> Inl e | Inr min_spread \<Rightarrow>
                case subscript ''maxSpread'' (maxSpread recs) of Inl e \<Rightarrow> Inl e | Inr max_spread \<Rightarrow>
                case subscript ''gamma'' (gamma p) of Inl e \<Rightarrow> Inl e | Inr g \<Rightarrow>
                case subscript ''sigma'' (sigma p) of Inl e \<Rightarrow> Inl e | Inr s \<Rightarrow>
                case subscript ''kappa'' (kappa p) of Inl e \<Rightarrow> Inl e | Inr k \<Rightarrow>
                case subscript ''timeHorizon'' (timeHorizon p) of Inl e \<Rightarrow> Inl e | Inr th \<Rightarrow>
                  cycle_loop client settings dry_run ticker_map p max_position min_spread max_spread
                    initial_state snapshots))"

section \<open>Concrete inputs\<close>

text \<open>The default settings of \<^verbatim>\<open>StrategySettings\<close>, with the default markets.\<close>

definition default_settings :: StrategySettings where
  "default_settings =
     \<lparr>portfolio_value = 9975 / 10, min_order_value = 10,
      primary_markets = [''BTC-PERP'', ''ETH-PERP'', ''SOL-PERP'']\<rparr>"

definition negative_tickers :: "string \<Rightarrow> ticker option" where
  "negative_tickers =
     [''BTC-PERP'' \<mapsto> \<lparr>price = Some (- 1), mid = None, szDecimals = Some 5\<rparr>]"

definition sol_tickers :: "string \<Rightarrow> ticker option" where
  "sol_tickers = [''SOL-PERP'' \<mapsto> \<lparr>price = Some 8, mid = None, szDecimals = Some 0\<rparr>]"

definition sol_snapshot :: SymbolSnapshot where
  "sol_snapshot =
     \<lparr>symbol = ''SOL-PERP'', mid_price = 8, sz_decimals = 0, inventory = 6 / 10,
      change_24h = None, notional_liquidity = None\<rparr>"

definition accepting_client :: HyperliquidClient where
  "accepting_client =
     \<lparr>get_positions = [\<lparr>pos_coin = ''SOL'', pos_symbol = ''SOL-PERP'', pos_szi = 6 / 10\<rparr>],
      get_tickers = sol_tickers,
      exchange_handle = Some (\<lambda>calls call. Inr ''ok'')\<rparr>"

definition rejecting_client :: HyperliquidClient where
  "rejecting_client =
     \<lparr>get_positions = [\<lparr>pos_coin = ''SOL'', pos_symbol = ''SOL-PERP'', pos_szi = 6 / 10\<rparr>],
      get_tickers = sol_tickers,
      exchange_handle = Some (\<lambda>calls call. Inl (ExchangeFailure ''rejected''))\<rparr>"

definition sell_rejecting_client :: HyperliquidClient where
  "sell_rejecting_client =
     \<lparr>get_positions = [\<lparr>pos_coin = ''SOL'', pos_symbol = ''SOL-PERP'', pos_szi = 6 / 10\<rparr>],
      get_tickers = sol_tickers,
      exchange_handle =
        Some (\<lambda>calls call. if is_buy call then Inr ''ok'' else Inl (ExchangeFailure ''rejected''))\<rparr>"

definition example_analysis :: analysis where
  "example_analysis =
     \<lparr>parameters = example_params,
      strategyRecommendations =
        \<lparr>maxPosition = Some 2, minSpread = Some (1 / 1000), maxSpread = Some (5 / 100)\<rparr>\<rparr>"

text \<open>Two providers that always raise, for the concrete checks.\<close>

definition failing_primary :: "unit provider" where
  "failing_primary = (\<lambda>snapshots. Inl (ProviderFailure ''primary''))"

definition failing_fallback :: "unit provider" where
  "failing_fallback = (\<lambda>snapshots. Inl (ProviderFailure ''fallback''))"

section \<open>The position flattener (\<^verbatim>\<open>close_positions\<close>)\<close>

text \<open>
  An entry of \<^verbatim>\<open>orders_summary\<close>. The skipped entry has no \<^verbatim>\<open>limit_price\<close> key; the
  \<^verbatim>\<open>error\<close> key holds the text of the exception, kept here as the exception itself.
\<close>

record order_summary =
  os_symbol :: string
  os_side :: string
  os_size :: real
  os_limit_price :: "real option"
  os_status :: string
  os_response :: "response option"
  os_error :: "exn option"

text \<open>\<^verbatim>\<open>ticker.get("price") if ticker else None\<close>\<close>

definition ticker_price :: "ticker option \<Rightarrow> real option" where
  "ticker_price t = (case t of None \<Rightarrow> None | Some d \<Rightarrow> if ticker_falsy (Some d) then None else price d)"

definition skipped_entry :: "string \<Rightarrow> real \<Rightarrow> order_summary" where
  "skipped_entry symb qty =
     \<lparr>os_symbol = symb, os_side = (if qty < 0 then ''BUY'' else ''SELL''),
      os_size = \<bar>qty\<bar>, os_limit_price = None, os_status = ''skipped'',
      os_response = None, os_error = None\<rparr>"

text \<open>
  One pass of the loop over the positions: the entry appended to the summary, if any,
  and the calls made to the exchange so far. The local \<^verbatim>\<open>exchange\<close> is \<open>None\<close> in a
  dry run. A missing price and a zero price both fail \<^verbatim>\<open>if not mid_price\<close>.
\<close>

definition close_one ::
  "exchange option \<Rightarrow> (string \<Rightarrow> ticker option) \<Rightarrow> bool \<Rightarrow> real \<Rightarrow> exchange_call list \<Rightarrow>
   position \<Rightarrow> order_summary option \<times> exchange_call list" where
  "close_one ex tickers dry_run slippage calls pos =
     (let qty = pos_szi pos
      in if qty = 0 then (None, calls)
         else
          (let symb = pos_symbol pos
           in case ticker_price (tickers symb) of
                None \<Rightarrow> (Some (skipped_entry symb qty), calls)
              | Some mid_px \<Rightarrow>
                 if mid_px = 0 then (Some (skipped_entry symb qty), calls)
                 else
                  (let buy = (qty < 0);
                       lim = mid_px * (if buy then 1 + slippage else 1 - slippage);
                       order_payload =
                         \<lparr>os_symbol = symb, os_side = (if buy then ''BUY'' else ''SELL''),
                          os_size = \<bar>qty\<bar>, os_limit_price = Some lim, os_status = [],
                          os_response = None, os_error = None\<rparr>
                   in if dry_run then (Some (order_payload\<lparr>os_status := ''dry-run''\<rparr>), calls)
                      else
                       (let call = \<lparr>coin = symbol_to_coin symb, is_buy = buy, sz = \<bar>qty\<bar>,
                                    limit_px = lim, tif = ''Ioc'', reduce_only = True\<rparr>
                        in case ex of
                             None \<Rightarrow>
                               (Some (order_payload\<lparr>os_status := ''error'',
                                  os_error := Some (AttributeError ''order'')\<rparr>), calls)
                           | Some e \<Rightarrow>
                               (case e calls call of
                                  Inr r \<Rightarrow>
                                    (Some (order_payload\<lparr>os_status := ''submitted'',
                                       os_response := Some r\<rparr>), calls @ [call])
                                | Inl exc \<Rightarrow>
                                    (Some (order_payload\<lparr>os_status := ''error'',
                                       os_error := Some exc\<rparr>), calls @ [call]))))))"

fun close_loop ::
  "exchange option \<Rightarrow> (string \<Rightarrow> ticker option) \<Rightarrow> bool \<Rightarrow> real \<Rightarrow> exchange_call list \<Rightarrow>
   position list \<Rightarrow> order_summary list \<times> exchange_call list" where
  "close_loop ex tickers dry_run slippage calls [] = ([], calls)"
| "close_loop ex tickers dry_run slippage calls (pos # rest) =
     (case close_one ex tickers dry_run slippage calls pos of
        (None, calls1) \<Rightarrow> close_loop ex tickers dry_run slippage calls1 rest
      | (Some entry, calls1) \<Rightarrow>
          (case close_loop ex tickers dry_run slippage calls1 rest of
             (entries, calls2) \<Rightarrow> (entry # entries, calls2)))"

text \<open>Line 139: the positions whose quantity is not zero.\<close>

definition open_positions :: "HyperliquidClient \<Rightarrow> position list" where
  "open_positions client = filter (\<lambda>pos. 0 < \<bar>pos_szi pos\<bar>) (get_positions client)"

definition close_positions ::
  "HyperliquidClient \<Rightarrow> bool \<Rightarrow> real \<Rightarrow> exn + order_summary list \<times> exchange_call list" where
  "close_positions client dry_run slippage =
     (let positions = open_positions client
      in if positions = [] then Inr ([], [])
         else
          (let tickers = get_tickers client
           in if \<not> dry_run then
                (case require_exchange client of
                   Inl e \<Rightarrow> Inl e
                 | Inr ex \<Rightarrow> Inr (close_loop (Some ex) tickers dry_run slippage [] positions))
              else Inr (close_loop None tickers dry_run slippage [] positions)))"

definition short_client :: HyperliquidClient where
  "short_client =
     \<lparr>get_positions = [\<lparr>pos_coin = ''SOL'', pos_symbol = ''SOL-PERP'', pos_szi = - (5 / 2)\<rparr>],
      get_tickers = [''SOL-PERP'' \<mapsto> \<lparr>price = Some 100, mid = None, szDecimals = Some 2\<rparr>],
      exchange_handle = Some (\<lambda>calls call. Inr ''ok'')\<rparr>"

text \<open>
  What the flattener is asked to send and to record for a position, for comparison with
  the loop. \<open>closing_order\<close> is the reduce-only order for a position whose price is
  known and not zero: the absolute quantity, at the mid price moved by the slippage,
  above it for a buy against a short position and below it for a sell against a long
  one. \<open>closing_orders\<close> are the orders of a list of positions, in order.
  \<open>closing_entry\<close> is the summary entry of a position with a given status, response
  and error.
\<close>

definition closing_order ::
  "(string \<Rightarrow> ticker option) \<Rightarrow> real \<Rightarrow> position \<Rightarrow> exchange_call option" where
  "closing_order tickers slippage pos =
     (case ticker_price (tickers (pos_symbol pos)) of
        None \<Rightarrow> None
      | Some mid_px \<Rightarrow>
          if mid_px = 0 then None
          else Some \<lparr>coin = symbol_to_coin (pos_symbol pos), is_buy = (pos_szi pos < 0),
                     sz = \<bar>pos_szi pos\<bar>,
                     limit_px = (if pos_szi pos < 0 then mid_px * (1 + slippage)
                                 else mid_px * (1 - slippage)),
                     tif = ''Ioc'', reduce_only = True\<rparr>)"

definition closing_orders ::
  "(string \<Rightarrow> ticker option) \<Rightarrow> real \<Rightarrow> position list \<Rightarrow> exchange_call list" where
  "closing_orders tickers slippage ps = List.map_filter (closing_order tickers slippage) ps"

definition closing_entry ::
  "(string \<Rightarrow> ticker option) \<Rightarrow> real \<Rightarrow> position \<Rightarrow> string \<Rightarrow> response option \<Rightarrow>
   exn option \<Rightarrow> order_summary" where
  "closing_entry tickers slippage pos status resp err =
     \<lparr>os_symbol = pos_symbol pos,
      os_side = (if pos_szi pos < 0 then ''BUY'' else ''SELL''),
      os_size = \<bar>pos_szi pos\<bar>,
      os_limit_price = map_option limit_px (closing_order tickers slippage pos),
      os_status = status, os_response = resp, os_error = err\<rparr>"

text \<open>
  Three positions: a short one and a long one with a price, one without a ticker. The
  exchange of \<open>mixed_client\<close> refuses every buy; \<open>keyless_client\<close> has no exchange
  handle.
\<close>

definition mixed_positions :: "position list" where
  "mixed_positions =
     [\<lparr>pos_coin = ''SOL'', pos_symbol = ''SOL-PERP'', pos_szi = - (5 / 2)\<rparr>,
      \<lparr>pos_coin = ''BTC'', pos_symbol = ''BTC-PERP'', pos_szi = 1\<rparr>,
      \<lparr>pos_coin = ''ETH'', pos_symbol = ''ETH-PERP'', pos_szi = 2\<rparr>]"

definition mixed_tickers :: "string \<Rightarrow> ticker option" where
  "mixed_tickers =
     [''SOL-PERP'' \<mapsto> \<lparr>price = Some 100, mid = None, szDecimals = Some 2\<rparr>,
      ''ETH-PERP'' \<mapsto> \<lparr>price = Some 50, mid = None, szDecimals = Some 3\<rparr>]"

definition buy_refusing_exchange :: exchange where
  "buy_refusing_exchange calls call =
     (if is_buy call then Inl (ExchangeFailure ''rejected'') else Inr ''ok'')"

definition mixed_client :: HyperliquidClient where
  "mixed_client =
     \<lparr>get_positions = mixed_positions, get_tickers = mixed_tickers,
      exchange_handle = Some buy_refusing_exchange\<rparr>"

definition keyless_client :: HyperliquidClient where
  "keyless_client =
     \<lparr>get_positions = mixed_positions, get_tickers = mixed_tickers, exchange_handle = None\<rparr>"

section \<open>Polling the provider (\<^verbatim>\<open>agent_market.py\<close>)\<close>

text \<open>
  The settings the modelled functions read; the other fields of
  \<^verbatim>\<open>AgentMarketSettings\<close> only go into the request payload.
\<close>

record AgentMarketSettings =
  api_key :: string
  base_url :: string
  poll_interval :: real
  max_polls :: int

text \<open>A message of the chat transcript; a field is \<open>None\<close> when the key is absent.\<close>

record chat_message =
  sender :: "string option"
  message :: "string option"
  timestamp :: "string option"

text \<open>
  What one \<^verbatim>\<open>GET /v1/chat/{id}\<close> does: \<^verbatim>\<open>requests\<close> raises (no connection, or an
  error status at \<^verbatim>\<open>raise_for_status\<close>), or the body is a JSON list, or it is JSON of
  another shape.
\<close>

datatype chat_reply = ChatFailed string | ChatList "chat_message list" | ChatOther

definition fetch_chat_messages :: "chat_reply \<Rightarrow> exn + chat_message list" where
  "fetch_chat_messages reply =
     (case reply of
        ChatFailed e \<Rightarrow> Inl (RequestException e)
      | ChatList ms \<Rightarrow> Inr ms
      | ChatOther \<Rightarrow> Inl (AgentMarketError ''Unexpected chat payload''))"

definition provider_messages :: "chat_message list \<Rightarrow> chat_message list" where
  "provider_messages messages =
     filter (\<lambda>msg. sender msg = Some ''provider'' \<and>
                   (case message msg of None \<Rightarrow> False | Some t \<Rightarrow> t \<noteq> [])) messages"

text \<open>\<^verbatim>\<open>msg.get("timestamp", "")\<close>; strings compare code point by code point.\<close>

definition timestamp_key :: "chat_message \<Rightarrow> string" where
  "timestamp_key msg = (case timestamp msg of None \<Rightarrow> [] | Some t \<Rightarrow> t)"

text \<open>
  \<^verbatim>\<open>list.sort(key=..., reverse=True)\<close>: the list is reversed, sorted stably in
  ascending order and reversed again, so equal keys keep their order.
\<close>

definition sort_reverse :: "('a \<Rightarrow> 'k::linorder) \<Rightarrow> 'a list \<Rightarrow> 'a list" where
  "sort_reverse key xs = rev (sort_key key (rev xs))"

text \<open>
  The loop of \<^verbatim>\<open>poll_provider_message\<close>, with the attempts left, the attempt number
  and the sleeps made so far. \<open>fetch k\<close> is what the service does at attempt \<open>k\<close>.
  \<^verbatim>\<open>time.sleep\<close> raises a \<^verbatim>\<open>ValueError\<close> on a negative length, outside the \<^verbatim>\<open>try\<close>.
  The sorted list is empty exactly when \<^verbatim>\<open>provider_messages\<close> is.
\<close>

fun poll_loop ::
  "(nat \<Rightarrow> chat_reply) \<Rightarrow> real \<Rightarrow> nat \<Rightarrow> nat \<Rightarrow> real list \<Rightarrow> (exn + string option) \<times> real list" where
  "poll_loop fetch interval 0 attempt slept = (Inr None, slept)"
| "poll_loop fetch interval (Suc remaining) attempt slept =
     (if attempt \<noteq> 0 \<and> interval < 0 then
        (Inl (ValueError ''sleep length must be non-negative''), slept)
      else
       (let slept1 = (if attempt \<noteq> 0 then slept @ [interval] else slept)
        in case fetch_chat_messages (fetch attempt) of
             Inl (RequestException e) \<Rightarrow> poll_loop fetch interval remaining (Suc attempt) slept1
           | Inl e \<Rightarrow> (Inl e, slept1)
           | Inr messages \<Rightarrow>
               (case sort_reverse timestamp_key (provider_messages messages) of
                  [] \<Rightarrow> poll_loop fetch interval remaining (Suc attempt) slept1
                | msg # others \<Rightarrow> (Inr (message msg), slept1))))"

definition poll_provider_message ::
  "AgentMarketSettings \<Rightarrow> (nat \<Rightarrow> chat_reply) \<Rightarrow> (exn + string option) \<times> real list" where
  "poll_provider_message settings fetch =
     poll_loop fetch (poll_interval settings) (nat (max_polls settings)) 0 []"

text \<open>
  An attempt that brings no message and lets the loop go on: the request failed in
  \<^verbatim>\<open>requests\<close>, or the transcript holds no message of the provider with content. A
  body that is not a list is not such an attempt: it raises.
\<close>

definition no_message :: "chat_reply \<Rightarrow> bool" where
  "no_message reply =
     (case reply of
        ChatFailed e \<Rightarrow> True
      | ChatList ms \<Rightarrow> provider_messages ms = []
      | ChatOther \<Rightarrow> False)"

definition default_agent_settings :: AgentMarketSettings where
  "default_agent_settings =
     \<lparr>api_key = ''key'', base_url = ''https://api.agent.market'', poll_interval = 5,
      max_polls = 18\<rparr>"

definition negative_interval_settings :: AgentMarketSettings where
  "negative_interval_settings = default_agent_settings\<lparr>poll_interval := - 1\<rparr>"

definition keyless_agent_settings :: AgentMarketSettings where
  "keyless_agent_settings = default_agent_settings\<lparr>api_key := []\<rparr>"

definition example_transcript :: "chat_message list" where
  "example_transcript =
     [\<lparr>sender = Some ''requester'', message = Some ''background'', timestamp = Some ''2024-01-01T00:00:00''\<rparr>,
      \<lparr>sender = Some ''provider'', message = Some ''first'', timestamp = Some ''2024-01-01T00:00:05''\<rparr>,
      \<lparr>sender = Some ''provider'', message = Some ''second'', timestamp = Some ''2024-01-01T00:00:09''\<rparr>,
      \<lparr>sender = Some ''provider'', message = Some [], timestamp = Some ''2024-01-01T00:00:10''\<rparr>]"

definition other_then_list :: "nat \<Rightarrow> chat_reply" where
  "other_then_list k = (if k = 0 then ChatOther else ChatList example_transcript)"

definition example_fetch :: "nat \<Rightarrow> chat_reply" where
  "example_fetch k =
     (if k = 0 then ChatFailed ''timeout''
      else if k = 1 then ChatList [\<lparr>sender = Some ''requester'', message = Some ''background'',
                                   timestamp = Some ''2024-01-01T00:00:00''\<rparr>]
      else ChatList example_transcript)"

section \<open>Choosing the analysis provider\<close>

record AgentMarketClient =
  client_settings :: AgentMarketSettings
  client_base :: string

text \<open>\<^verbatim>\<open>AgentMarketClient.__init__\<close>: an empty API key is refused.\<close>

definition new_agent_market_client :: "AgentMarketSettings \<Rightarrow> exn + AgentMarketClient" where
  "new_agent_market_client settings =
     (if api_key settings = [] then Inl (ValueError ''AGENT_MARKET_API_KEY is required'')
      else Inr \<lparr>client_settings = settings,
                client_base = rev (dropWhile (\<lambda>c. c = CHR ''/'') (rev (base_url settings)))\<rparr>)"

datatype analysis_provider = AgentMarketAnalysisProvider AgentMarketClient

text \<open>
  \<^verbatim>\<open>build_analysis_provider\<close>; \<open>env\<close> is the \<^verbatim>\<open>AgentMarketSettings()\<close> read from the
  environment. A \<^verbatim>\<open>ValueError\<close> of the constructor is raised again with another text.
\<close>

definition build_analysis_provider ::
  "string \<Rightarrow> AgentMarketSettings \<Rightarrow> exn + analysis_provider \<times> analysis_provider option" where
  "build_analysis_provider mode env =
     (let m = lower mode
      in if m \<noteq> ''auto'' \<and> m \<noteq> ''agent'' then
           Inl (ValueError (''Invalid analysis provider mode: '' @ m @
             ''. The HTTP /analysis fallback has been removed; configure agent.market.''))
         else case new_agent_market_client env of
           Inl (ValueError msg) \<Rightarrow>
             Inl (ValueError ''AGENT_MARKET_API_KEY must be set to run the Avellaneda analysis now that the HTTP fallback is gone.'')
         | Inl e \<Rightarrow> Inl e
         | Inr agent_client \<Rightarrow> Inr (AgentMarketAnalysisProvider agent_client, None))"

text \<open>The maker that \<^verbatim>\<open>main\<close> builds from the pair (lines 372 to 374).\<close>

record MarketMaker =
  maker_client :: HyperliquidClient
  maker_analysis_provider :: analysis_provider
  maker_fallback_provider :: "analysis_provider option"
  maker_settings :: StrategySettings

definition main_maker ::
  "string \<Rightarrow> AgentMarketSettings \<Rightarrow> HyperliquidClient \<Rightarrow> StrategySettings \<Rightarrow> exn + MarketMaker" where
  "main_maker mode env client settings =
     (case build_analysis_provider mode env of
        Inl e \<Rightarrow> Inl e
      | Inr (provider, fallback) \<Rightarrow>
          Inr \<lparr>maker_client = client, maker_analysis_provider = provider,
               maker_fallback_provider = fallback, maker_settings = settings\<rparr>)"

section \<open>Parsing the provider's answer (\<^verbatim>\<open>_parse_analysis\<close>)\<close>



















section \<open>Verification: the quote calculator\<close>

lemma clamp_spread_mono: "x \<le> y \<Longrightarrow> clamp_spread lo hi x \<le> clamp_spread lo hi y"
  by (simp add: clamp_spread_def max_def min_def)

lemma skew_mono:
  fixes w m i1 i2 :: real
  assumes "0 \<le> w" and "0 < m" and "i1 \<le> i2"
  shows "w * (i1 / m) \<le> w * (i2 / m)"
  using assms by (simp add: divide_right_mono mult_left_mono)

lemma calculate_spreads_Inr:
  assumes "gamma p = Some g" and "sigma p = Some s" and "timeHorizon p = Some th" and "m \<noteq> 0"
  shows "calculate_spreads p i m =
           Inr (g * s * s * (th / 60) - inv_weight_of p * (i / m),
                g * s * s * (th / 60) + inv_weight_of p * (i / m))"
  using assms by (simp add: calculate_spreads_def subscript_def Let_def)

text \<open>
  C2, as the code has it. With the three required parameters present, a non-negative
  inventory risk weight and a positive maximum inventory, raising the inventory from
  \<open>i1\<close> to \<open>i2\<close> never raises the clamped bid spread and never lowers the clamped ask
  spread: the bid spread is \<open>base - skew\<close> and the ask spread \<open>base + skew\<close>, and the
  skew grows with the inventory. The direction is the opposite of the one the claim
  gives.
\<close>

theorem C2_spreads_monotone_in_inventory:
  assumes "gamma p = Some g" and "sigma p = Some s" and "timeHorizon p = Some th"
    and "0 \<le> inv_weight_of p" and "0 < max_inventory" and "i1 < i2"
  shows "\<exists>b1 a1 b2 a2.
           clamped_spreads p i1 max_inventory min_spread max_spread = Inr (b1, a1) \<and>
           clamped_spreads p i2 max_inventory min_spread max_spread = Inr (b2, a2) \<and>
           b2 \<le> b1 \<and> a1 \<le> a2"
proof -
  let ?base = "g * s * s * (th / 60)"
  let ?k1 = "inv_weight_of p * (i1 / max_inventory)"
  let ?k2 = "inv_weight_of p * (i2 / max_inventory)"
  have k: "?k1 \<le> ?k2"
    using assms(4,5,6) by (intro skew_mono) simp_all
  have m: "max_inventory \<noteq> 0" using assms(5) by simp
  have c1: "clamped_spreads p i1 max_inventory min_spread max_spread =
              Inr (clamp_spread min_spread max_spread (?base - ?k1),
                   clamp_spread min_spread max_spread (?base + ?k1))"
    by (simp add: clamped_spreads_def calculate_spreads_Inr [OF assms(1,2,3) m])
  have c2: "clamped_spreads p i2 max_inventory min_spread max_spread =
              Inr (clamp_spread min_spread max_spread (?base - ?k2),
                   clamp_spread min_spread max_spread (?base + ?k2))"
    by (simp add: clamped_spreads_def calculate_spreads_Inr [OF assms(1,2,3) m])
  have b: "clamp_spread min_spread max_spread (?base - ?k2)
             \<le> clamp_spread min_spread max_spread (?base - ?k1)"
    using k by (intro clamp_spread_mono) simp
  have a: "clamp_spread min_spread max_spread (?base + ?k1)
             \<le> clamp_spread min_spread max_spread (?base + ?k2)"
    using k by (intro clamp_spread_mono) simp
  show ?thesis using c1 c2 a b by blast
qed

theorem C2_spreads_monotone_witness:
  "\<exists>b1 a1 b2 a2.
     clamped_spreads example_params 0 5 (1 / 1000) (5 / 100) = Inr (b1, a1) \<and>
     clamped_spreads example_params (1 / 2) 5 (1 / 1000) (5 / 100) = Inr (b2, a2) \<and>
     b2 \<le> b1 \<and> a1 \<le> a2"
  using C2_spreads_monotone_in_inventory
    [of example_params "2 / 10" "3 / 10" 60 5 0 "1 / 2" "1 / 1000" "5 / 100"]
  by (simp add: example_params_def inv_weight_of_def)

text \<open>
  C2 as stated fails: with the parameters of the spec's own example, going from
  inventory 0 to inventory 1/2 (maximum 5) lowers the clamped bid spread from 0.018 to
  the lower bound 0.001 and raises the clamped ask spread from 0.018 to 0.038.
\<close>

theorem C2_bid_widens_counterexample:
  "clamped_spreads example_params 0 5 (1 / 1000) (5 / 100) = Inr (18 / 1000, 18 / 1000) \<and>
   clamped_spreads example_params (1 / 2) 5 (1 / 1000) (5 / 100) = Inr (1 / 1000, 38 / 1000) \<and>
   \<not> ((18 / 1000 :: real) \<le> 1 / 1000) \<and> \<not> ((38 / 1000 :: real) \<le> 18 / 1000)"
  by (simp add: clamped_spreads_def calculate_spreads_def subscript_def example_params_def
      inv_weight_of_def clamp_spread_def Let_def)

text \<open>
  C3, as the code has it. For the example input the raw and the clamped spreads are both
  0.018 and the bid price is 98.2; the ask price \<open>100 * 1.018 = 101.8\<close> is at least 100,
  so \<^verbatim>\<open>round_price\<close> rounds it to the nearest integer, 102.
\<close>

theorem C3_example_quote:
  "calculate_spreads example_params 0 5 = Inr (18 / 1000, 18 / 1000) \<and>
   quote_prices example_params ''BTC-PERP'' 100 0 5 (1 / 1000) (5 / 100) =
     Inr \<lparr>bid_spread = 18 / 1000, ask_spread = 18 / 1000,
          bid_price = 982 / 10, ask_price = 102\<rparr>"
  by (simp add: quote_prices_def clamped_spreads_def calculate_spreads_def subscript_def
      example_params_def inv_weight_of_def clamp_spread_def round_price_def
      py_round_ndigits_def py_round_def Let_def)

text \<open>C3 as stated fails: the rounded ask price of the example is not 101.80.\<close>

theorem C3_ask_price_counterexample:
  "quote_prices example_params ''BTC-PERP'' 100 0 5 (1 / 1000) (5 / 100) \<noteq>
     Inr \<lparr>bid_spread = 18 / 1000, ask_spread = 18 / 1000,
          bid_price = 982 / 10, ask_price = 1018 / 10\<rparr>"
  by (simp add: quote_prices_def clamped_spreads_def calculate_spreads_def subscript_def
      example_params_def inv_weight_of_def clamp_spread_def round_price_def
      py_round_ndigits_def py_round_def Let_def)

section \<open>Verification: the fallback provider\<close>

text \<open>
  C1, as the code has it. When the primary provider raises and a fallback is configured,
  the fallback is called next with the same snapshots and its outcome is the outcome of
  the acquisition: its analysis when it returns, its own exception when it raises. With
  no fallback the primary's exception is the outcome and nothing else is called.
\<close>

theorem C1_fallback_outcome:
  assumes "analysis_provider snapshots = Inl exc"
  shows "fetch_analysis analysis_provider (Some fb) snapshots =
           (fb snapshots, [(Primary, snapshots), (Fallback, snapshots)]) \<and>
         fetch_analysis analysis_provider None snapshots = (Inl exc, [(Primary, snapshots)])"
  using assms by (simp add: fetch_analysis_def)

theorem C1_fallback_outcome_witness:
  "fetch_analysis failing_primary (Some failing_fallback) [] =
     (Inl (ProviderFailure ''fallback''), [(Primary, []), (Fallback, [])]) \<and>
   fetch_analysis failing_primary None [] = (Inl (ProviderFailure ''primary''), [(Primary, [])])"
  using C1_fallback_outcome [of failing_primary "[]" "ProviderFailure ''primary''" failing_fallback]
  by (simp add: failing_primary_def failing_fallback_def)

text \<open>
  C1 as stated fails: when both providers raise, the exception that reaches the caller
  is the fallback's, not the primary's.
\<close>

theorem C1_primary_error_counterexample:
  "fst (fetch_analysis failing_primary (Some failing_fallback) []) \<noteq>
     Inl (ProviderFailure ''primary'')"
  by (simp add: fetch_analysis_def failing_primary_def failing_fallback_def)

section \<open>Verification: the snapshot builder\<close>

lemma snapshots_loop_nonzero:
  "snap \<in> set (snapshots_loop tm im ch ms) \<Longrightarrow> mid_price snap \<noteq> 0"
  by (induction ms) (auto split: option.splits if_splits)

lemma snapshots_loop_symbols:
  "map symbol (snapshots_loop tm im ch ms) =
     filter (\<lambda>s. case tm s of None \<Rightarrow> False | Some d \<Rightarrow> truthy (price_or_mid d)) ms"
  by (induction ms)
     (auto simp: truthy_def ticker_falsy_def price_or_mid_def split: option.splits if_splits)

lemma snapshots_loop_changes:
  "snapshots_loop tm im Map.empty ms =
     map (\<lambda>s. s\<lparr>change_24h := None\<rparr>) (snapshots_loop tm im ch ms)"
  by (induction ms) (auto split: option.splits if_splits)

lemma build_snapshots_lookup_failure:
  assumes "build_snapshots settings cg tm im = Inr snaps"
  shows "build_snapshots settings (CoingeckoFailed e) tm im =
           Inr (map (\<lambda>s. s\<lparr>change_24h := None\<rparr>) snaps)"
proof -
  have "fetch_24h_changes (primary_markets settings) (CoingeckoFailed e) = Inr Map.empty"
    by (simp add: fetch_24h_changes_def)
  then show ?thesis
    using assms snapshots_loop_changes [of tm im "primary_markets settings"]
    by (auto simp: build_snapshots_def split: sum.splits)
qed

lemma build_snapshots_lookup_failure_returns:
  "\<exists>snaps. build_snapshots settings (CoingeckoFailed e) tm im = Inr snaps \<and>
           (\<forall>snap\<in>set snaps. change_24h snap = None \<and> mid_price snap \<noteq> 0) \<and>
           map symbol snaps =
             filter (\<lambda>s. case tm s of None \<Rightarrow> False | Some d \<Rightarrow> truthy (price_or_mid d))
               (primary_markets settings)"
proof -
  have f: "fetch_24h_changes (primary_markets settings) (CoingeckoFailed e) = Inr Map.empty"
    by (simp add: fetch_24h_changes_def)
  have c: "change_24h snap = None" if "snap \<in> set (snapshots_loop tm im Map.empty ms)"
    for snap ms
    using that by (induction ms) (auto split: option.splits if_splits)
  show ?thesis
    using f c snapshots_loop_nonzero snapshots_loop_symbols
    by (auto simp: build_snapshots_def)
qed

lemma build_snapshots_malformed_body:
  assumes "list_ex (\<lambda>s. map_of COINGECKO_ID_MAP s \<noteq> None) (primary_markets settings)"
  shows "build_snapshots settings (CoingeckoNotJson e) tm im = Inl (JSONDecodeError e)"
    and "build_snapshots settings CoingeckoNotDict tm im = Inl (AttributeError ''get'')"
  using assms by (simp_all add: build_snapshots_def fetch_24h_changes_def)

text \<open>
  C4, the code at the failing input. The builder tests the price for truth only, so a
  ticker whose price is \<open>- 1\<close> yields a snapshot with mid price \<open>- 1\<close>; the quoting loop
  of \<^verbatim>\<open>run_cycle\<close> tests \<^verbatim>\<open>mid_price <= 0\<close> as well. The lemmas above hold for every
  input: the snapshots follow the configured order, a symbol with no ticker or with a
  missing or zero price is skipped, and a failed price-change lookup changes nothing but
  \<open>change_24h\<close>. An answer of the price-change service whose body is not JSON, or not
  a dictionary, is not such a failure: it raises out of the builder.
\<close>

theorem C4_negative_price_snapshot:
  "build_snapshots default_settings (CoingeckoFailed ''timeout'') negative_tickers Map.empty =
     Inr [\<lparr>symbol = ''BTC-PERP'', mid_price = - 1, sz_decimals = 5, inventory = 0,
           change_24h = None, notional_liquidity = None\<rparr>]"
  by code_simp

section \<open>Verification: order sizes and the skip rule\<close>

lemma calculate_position_size_below_minimum:
  assumes "0 < px" and "qty_before_minimum px mp cur settings side * px < min_order_value settings"
  shows "calculate_position_size symb px mp cur settings side = Inr 0"
  using assms by (simp add: calculate_position_size_def Let_def pos_less_divide_eq)

lemma calculate_position_size_notional:
  assumes "0 < px" and "calculate_position_size symb px mp cur settings side = Inr q"
  shows "q = 0 \<or> min_order_value settings \<le> q * px"
proof (cases "mp \<le> 0")
  case True
  with assms show ?thesis by (simp add: calculate_position_size_def)
next
  case False
  let ?qty = "qty_before_minimum px mp cur settings side"
  from False assms have q: "q = (if ?qty < min_order_value settings / px then 0 else ?qty)"
    by (simp add: calculate_position_size_def Let_def split: if_splits)
  show ?thesis
  proof (cases "?qty < min_order_value settings / px")
    case True
    with q show ?thesis by simp
  next
    case False
    then have "min_order_value settings / px \<le> ?qty" by simp
    then have "min_order_value settings \<le> ?qty * px"
      using assms(1) by (simp add: pos_divide_le_eq)
    with q False show ?thesis by simp
  qed
qed

lemma order_sizes_rounds:
  assumes "px \<noteq> 0"
  shows "\<exists>b a. calculate_position_size symb px mp cur settings ''bid'' = Inr b \<and>
               calculate_position_size symb px mp cur settings ''ask'' = Inr a \<and>
               order_sizes symb px mp cur settings decimals =
                 Inr (round_size b decimals, round_size a decimals)"
  using assms by (simp add: order_sizes_def calculate_position_size_def Let_def)

lemma priced_ticker_truthy: "price_or_mid d = Some m \<Longrightarrow> \<not> ticker_falsy (Some d)"
  by (auto simp: price_or_mid_def ticker_falsy_def truthy_def split: if_splits)

lemma cycle_body_skips_zero_size:
  assumes "ticker_map (symbol snapshot) = Some d" and "price_or_mid d = Some mid_px"
    and "0 < mid_px"
    and "quote_prices p (symbol snapshot) mid_px (inventory snapshot) max_position
           min_spread max_spread = Inr q"
    and "order_sizes (symbol snapshot) mid_px max_position (inventory snapshot) settings
           (case szDecimals d of None \<Rightarrow> 5 | Some n \<Rightarrow> n) = Inr (bid_qty, ask_qty)"
    and "bid_qty = 0 \<or> ask_qty = 0"
  shows "cycle_body client settings dry_run ticker_map p max_position min_spread max_spread
           st snapshot = Inr (skip_symbol st)"
  using assms priced_ticker_truthy [OF assms(2)] by (auto simp: cycle_body_def Let_def)

lemma cycle_body_live_submits:
  assumes "ticker_map (symbol snapshot) = Some d" and "price_or_mid d = Some mid_px"
    and "0 < mid_px"
    and "quote_prices p (symbol snapshot) mid_px (inventory snapshot) max_position
           min_spread max_spread = Inr q"
    and "order_sizes (symbol snapshot) mid_px max_position (inventory snapshot) settings
           (case szDecimals d of None \<Rightarrow> 5 | Some n \<Rightarrow> n) = Inr (bid_qty, ask_qty)"
    and "bid_qty \<noteq> 0" and "ask_qty \<noteq> 0"
  shows "cycle_body client settings False ticker_map p max_position min_spread max_spread
           st snapshot =
         Inr (submit_pair client st (symbol snapshot) bid_qty (bid_price q) ask_qty (ask_price q))"
  using assms priced_ticker_truthy [OF assms(2)] by (simp add: cycle_body_def Let_def)

text \<open>
  C5, as the code has it. For a positive price: \<^verbatim>\<open>calculate_position_size\<close> returns 0
  when the notional of the quantity it computed, before any rounding, is below the
  minimum order value; the cycle then rounds both sides' results to the size decimals;
  and when either rounded size is 0 the symbol is counted as skipped, with no order
  placed and no call to the exchange.
\<close>

theorem C5_minimum_before_rounding:
  assumes "0 < px"
  shows "(qty_before_minimum px mp cur settings side * px < min_order_value settings \<longrightarrow>
            calculate_position_size symb px mp cur settings side = Inr 0) \<and>
         (\<exists>b a. calculate_position_size symb px mp cur settings ''bid'' = Inr b \<and>
                calculate_position_size symb px mp cur settings ''ask'' = Inr a \<and>
                order_sizes symb px mp cur settings decimals =
                  Inr (round_size b decimals, round_size a decimals)) \<and>
         (ticker_map (symbol snapshot) = Some d \<and> price_or_mid d = Some px \<and>
          quote_prices p (symbol snapshot) px (inventory snapshot) mp min_spread max_spread = Inr q \<and>
          order_sizes (symbol snapshot) px mp (inventory snapshot) settings
            (case szDecimals d of None \<Rightarrow> 5 | Some n \<Rightarrow> n) = Inr (bid_qty, ask_qty) \<and>
          (bid_qty = 0 \<or> ask_qty = 0) \<longrightarrow>
            cycle_body client settings dry_run ticker_map p mp min_spread max_spread st snapshot =
              Inr (skip_symbol st) \<and>
            orders_skipped (skip_symbol st) = orders_skipped st + 1 \<and>
            orders_placed (skip_symbol st) = orders_placed st \<and>
            exchange_calls (skip_symbol st) = exchange_calls st)"
proof (intro conjI impI)
  assume "qty_before_minimum px mp cur settings side * px < min_order_value settings"
  with assms show "calculate_position_size symb px mp cur settings side = Inr 0"
    by (rule calculate_position_size_below_minimum)
next
  from assms have "px \<noteq> 0" by simp
  then show "\<exists>b a. calculate_position_size symb px mp cur settings ''bid'' = Inr b \<and>
                calculate_position_size symb px mp cur settings ''ask'' = Inr a \<and>
                order_sizes symb px mp cur settings decimals =
                  Inr (round_size b decimals, round_size a decimals)"
    by (rule order_sizes_rounds)
next
  assume h: "ticker_map (symbol snapshot) = Some d \<and> price_or_mid d = Some px \<and>
          quote_prices p (symbol snapshot) px (inventory snapshot) mp min_spread max_spread = Inr q \<and>
          order_sizes (symbol snapshot) px mp (inventory snapshot) settings
            (case szDecimals d of None \<Rightarrow> 5 | Some n \<Rightarrow> n) = Inr (bid_qty, ask_qty) \<and>
          (bid_qty = 0 \<or> ask_qty = 0)"
  with assms show "cycle_body client settings dry_run ticker_map p mp min_spread max_spread st snapshot =
              Inr (skip_symbol st)"
    by (intro cycle_body_skips_zero_size [where d = d and mid_px = px and q = q
          and bid_qty = bid_qty and ask_qty = ask_qty]) simp_all
qed (simp_all add: skip_symbol_def)

theorem C5_minimum_before_rounding_witness:
  "calculate_position_size ''SOL-PERP'' 8 1 (6 / 10) default_settings ''bid'' = Inr 0 \<and>
   cycle_body accepting_client default_settings False sol_tickers example_params 1
     (1 / 1000) (5 / 100) initial_state sol_snapshot = Inr (skip_symbol initial_state) \<and>
   orders_skipped (skip_symbol initial_state) = orders_skipped initial_state + 1 \<and>
   exchange_calls (skip_symbol initial_state) = exchange_calls initial_state"
proof -
  have px: "(0::real) < 8" by simp
  have low: "qty_before_minimum 8 1 (6 / 10) default_settings ''bid'' * 8
               < min_order_value default_settings"
    by code_simp
  have t: "sol_tickers (symbol sol_snapshot) =
             Some \<lparr>price = Some 8, mid = None, szDecimals = Some 0\<rparr>"
    by (simp add: sol_tickers_def sol_snapshot_def)
  have pm: "price_or_mid \<lparr>price = Some 8, mid = None, szDecimals = Some 0\<rparr> = Some 8"
    by (simp add: price_or_mid_def truthy_def)
  have qp: "quote_prices example_params (symbol sol_snapshot) 8 (inventory sol_snapshot) 1
              (1 / 1000) (5 / 100) =
            Inr \<lparr>bid_spread = 1 / 1000, ask_spread = 5 / 100, bid_price = 799 / 100,
                 ask_price = 84 / 10\<rparr>"
    by code_simp
  have os: "order_sizes (symbol sol_snapshot) 8 1 (inventory sol_snapshot) default_settings
              (case szDecimals \<lparr>price = Some 8, mid = None, szDecimals = Some 0\<rparr> of
                 None \<Rightarrow> 5 | Some n \<Rightarrow> n) = Inr (0, 0)"
    by code_simp
  from C5_minimum_before_rounding [OF px, of 1 "6 / 10" default_settings "''bid''"
      "''SOL-PERP''" 0 sol_tickers sol_snapshot
      "\<lparr>price = Some 8, mid = None, szDecimals = Some 0\<rparr>" example_params
      "1 / 1000" "5 / 100"
      "\<lparr>bid_spread = 1 / 1000, ask_spread = 5 / 100, bid_price = 799 / 100,
        ask_price = 84 / 10\<rparr>" 0 0 accepting_client False initial_state]
    low t pm qp os
  show ?thesis by simp
qed

text \<open>
  C5 as stated fails: with the default settings, price 8, position limit 2 and
  inventory 0.6, the bid quantity is 1.4, above the minimum quantity 1.25; rounded to 0
  decimals it is 1, whose notional 8 is below the minimum order value 10, and the cycle
  still submits both orders.
\<close>

theorem C5_rounded_notional_counterexample:
  "calculate_position_size ''SOL-PERP'' 8 2 (6 / 10) default_settings ''bid'' = Inr (14 / 10) \<and>
   round_size (14 / 10) 0 = 1 \<and>
   (1::real) * 8 < min_order_value default_settings \<and>
   cycle_body accepting_client default_settings False sol_tickers example_params 2
     (1 / 1000) (5 / 100) initial_state sol_snapshot =
     Inr \<lparr>orders_placed = 2, orders_skipped = 0,
          exchange_calls =
            [\<lparr>coin = ''SOL'', is_buy = True, sz = 1, limit_px = 799 / 100,
              tif = ''Gtc'', reduce_only = False\<rparr>,
             \<lparr>coin = ''SOL'', is_buy = False, sz = 2, limit_px = 84 / 10,
              tif = ''Gtc'', reduce_only = False\<rparr>]\<rparr>"
  by code_simp

section \<open>Verification: failed submissions in a live cycle\<close>

lemma submit_pair_counts:
  assumes "place_order client (exchange_calls st) symb ''BUY'' bq ''LMT'' (Some bp) ''GTC'' False
             = (rb, calls1)"
    and "place_order client calls1 symb ''SELL'' aq ''LMT'' (Some ap) ''GTC'' False = (rs, calls2)"
  shows "orders_skipped (submit_pair client st symb bq bp aq ap) = orders_skipped st \<and>
         orders_placed (submit_pair client st symb bq bp aq ap) =
           (if isl rb \<or> isl rs then orders_placed st else orders_placed st + 2) \<and>
         exchange_calls (submit_pair client st symb bq bp aq ap) =
           (if isl rb then calls1 else calls2)"
  using assms by (cases rb; cases rs) (simp_all add: submit_pair_def)

text \<open>
  C10. In a live cycle, for a snapshot that reaches the submission (ticker and positive
  price present, both rounded sizes non-zero): whatever the two calls of
  \<^verbatim>\<open>place_order\<close> do, the loop goes on with the remaining snapshots; the skipped count
  does not move; the placed count grows by 2 when both calls return and does not move
  when the buy raises or when the buy returns and the sell raises (the sell is not
  attempted after a failed buy). The last conjunct is a run of \<^verbatim>\<open>run_cycle\<close> with one
  snapshot whose buy is rejected: placed and skipped are both 0.
\<close>

theorem C10_failed_submission_uncounted:
  assumes "ticker_map (symbol snapshot) = Some d" and "price_or_mid d = Some mid_px"
    and "0 < mid_px"
    and "quote_prices p (symbol snapshot) mid_px (inventory snapshot) max_position
           min_spread max_spread = Inr q"
    and "order_sizes (symbol snapshot) mid_px max_position (inventory snapshot) settings
           (case szDecimals d of None \<Rightarrow> 5 | Some n \<Rightarrow> n) = Inr (bid_qty, ask_qty)"
    and "bid_qty \<noteq> 0" and "ask_qty \<noteq> 0"
    and "place_order client (exchange_calls st) (symbol snapshot) ''BUY'' bid_qty ''LMT''
           (Some (bid_price q)) ''GTC'' False = (rb, calls1)"
    and "place_order client calls1 (symbol snapshot) ''SELL'' ask_qty ''LMT''
           (Some (ask_price q)) ''GTC'' False = (rs, calls2)"
  shows "(\<exists>st'. cycle_body client settings False ticker_map p max_position min_spread max_spread
                 st snapshot = Inr st' \<and>
               cycle_loop client settings False ticker_map p max_position min_spread max_spread
                 st (snapshot # rest) =
               cycle_loop client settings False ticker_map p max_position min_spread max_spread
                 st' rest \<and>
               orders_skipped st' = orders_skipped st \<and>
               orders_placed st' =
                 (if isl rb \<or> isl rs then orders_placed st else orders_placed st + 2) \<and>
               exchange_calls st' = (if isl rb then calls1 else calls2)) \<and>
         run_cycle rejecting_client (\<lambda>snapshots. Inr example_analysis) None default_settings
             (CoingeckoFailed ''timeout'') True =
           Inr \<lparr>orders_placed = 0, orders_skipped = 0,
                exchange_calls =
                  [\<lparr>coin = ''SOL'', is_buy = True, sz = 1, limit_px = 799 / 100,
                    tif = ''Gtc'', reduce_only = False\<rparr>]\<rparr> \<and>
         (\<exists>snapshots.
            build_snapshots default_settings (CoingeckoFailed ''timeout'')
              (get_tickers rejecting_client)
              (build_inventory_map (get_positions rejecting_client)) = Inr snapshots \<and>
            length snapshots = 1)"
proof -
  let ?st' = "submit_pair client st (symbol snapshot) bid_qty (bid_price q) ask_qty (ask_price q)"
  have body: "cycle_body client settings False ticker_map p max_position min_spread max_spread
                st snapshot = Inr ?st'"
    using assms(1-7) by (rule cycle_body_live_submits)
  have loop: "cycle_loop client settings False ticker_map p max_position min_spread max_spread
                 st (snapshot # rest) =
               cycle_loop client settings False ticker_map p max_position min_spread max_spread
                 ?st' rest"
    by (simp add: body)
  have run: "run_cycle rejecting_client (\<lambda>snapshots. Inr example_analysis) None default_settings
             (CoingeckoFailed ''timeout'') True =
           Inr \<lparr>orders_placed = 0, orders_skipped = 0,
                exchange_calls =
                  [\<lparr>coin = ''SOL'', is_buy = True, sz = 1, limit_px = 799 / 100,
                    tif = ''Gtc'', reduce_only = False\<rparr>]\<rparr>"
    by code_simp
  have "map_sum id length
          (build_snapshots default_settings (CoingeckoFailed ''timeout'')
             (get_tickers rejecting_client)
             (build_inventory_map (get_positions rejecting_client))) = Inr 1"
    by code_simp
  then have len: "\<exists>snapshots.
            build_snapshots default_settings (CoingeckoFailed ''timeout'')
              (get_tickers rejecting_client)
              (build_inventory_map (get_positions rejecting_client)) = Inr snapshots \<and>
            length snapshots = 1"
    by (cases "build_snapshots default_settings (CoingeckoFailed ''timeout'')
              (get_tickers rejecting_client)
              (build_inventory_map (get_positions rejecting_client))") simp_all
  from submit_pair_counts [OF assms(8,9)] body loop run len show ?thesis by blast
qed

theorem C10_failed_submission_witness:
  "\<exists>st'. cycle_body sell_rejecting_client default_settings False sol_tickers example_params 2
            (1 / 1000) (5 / 100) initial_state sol_snapshot = Inr st' \<and>
         orders_skipped st' = 0 \<and> orders_placed st' = 0 \<and> length (exchange_calls st') = 2"
proof -
  let ?d = "\<lparr>price = Some 8, mid = None, szDecimals = Some 0\<rparr>"
  let ?q = "\<lparr>bid_spread = 1 / 1000, ask_spread = 5 / 100, bid_price = 799 / 100,
             ask_price = 84 / 10\<rparr>"
  let ?buy = "\<lparr>coin = ''SOL'', is_buy = True, sz = 1, limit_px = 799 / 100,
               tif = ''Gtc'', reduce_only = False\<rparr>"
  let ?sell = "\<lparr>coin = ''SOL'', is_buy = False, sz = 2, limit_px = 84 / 10,
                tif = ''Gtc'', reduce_only = False\<rparr>"
  have t: "sol_tickers (symbol sol_snapshot) = Some ?d"
    by (simp add: sol_tickers_def sol_snapshot_def)
  have pm: "price_or_mid ?d = Some 8"
    by (simp add: price_or_mid_def truthy_def)
  have px: "(0::real) < 8" by simp
  have qp: "quote_prices example_params (symbol sol_snapshot) 8 (inventory sol_snapshot) 2
              (1 / 1000) (5 / 100) = Inr ?q"
    by code_simp
  have os: "order_sizes (symbol sol_snapshot) 8 2 (inventory sol_snapshot) default_settings
              (case szDecimals ?d of None \<Rightarrow> 5 | Some n \<Rightarrow> n) = Inr (1, 2)"
    by code_simp
  have nz: "(1::real) \<noteq> 0" "(2::real) \<noteq> 0" by simp_all
  have buy: "place_order sell_rejecting_client (exchange_calls initial_state) (symbol sol_snapshot)
               ''BUY'' 1 ''LMT'' (Some (bid_price ?q)) ''GTC'' False = (Inr ''ok'', [?buy])"
    by code_simp
  have sell: "place_order sell_rejecting_client [?buy] (symbol sol_snapshot)
               ''SELL'' 2 ''LMT'' (Some (ask_price ?q)) ''GTC'' False =
               (Inl (ExchangeFailure ''rejected''), [?buy, ?sell])"
    by code_simp
  from C10_failed_submission_uncounted [where ticker_map = sol_tickers
      and snapshot = sol_snapshot and d = ?d and settings = default_settings
      and rest = "[]" and client = sell_rejecting_client and st = initial_state,
      OF t pm px qp os nz buy sell]
  show ?thesis by (auto simp: initial_state_def)
qed

section \<open>Verification: the position flattener\<close>

lemma close_one_zero: "pos_szi pos = 0 \<Longrightarrow> close_one ex tk dr sl calls pos = (None, calls)"
  by (simp add: close_one_def)

lemma close_one_unpriced:
  assumes "pos_szi pos \<noteq> 0" and "closing_order tk sl pos = None"
  shows "close_one ex tk dr sl calls pos =
           (Some (closing_entry tk sl pos ''skipped'' None None), calls)"
  using assms
  by (auto simp: close_one_def closing_order_def closing_entry_def skipped_entry_def Let_def
      split: option.splits if_splits)

lemma close_one_dry_run:
  assumes "pos_szi pos \<noteq> 0" and "closing_order tk sl pos = Some c"
  shows "close_one ex tk True sl calls pos =
           (Some (closing_entry tk sl pos ''dry-run'' None None), calls)"
  using assms
  by (auto simp: close_one_def closing_order_def closing_entry_def Let_def
      split: option.splits if_splits)

lemma close_one_live:
  assumes "pos_szi pos \<noteq> 0" and "closing_order tk sl pos = Some c"
  shows "close_one (Some e) tk False sl calls pos =
           (Some (case e calls c of
                    Inr r \<Rightarrow> closing_entry tk sl pos ''submitted'' (Some r) None
                  | Inl x \<Rightarrow> closing_entry tk sl pos ''error'' None (Some x)),
            calls @ [c])"
  using assms
  by (auto simp: close_one_def closing_order_def closing_entry_def Let_def
      split: option.splits if_splits sum.splits)

lemma closing_orders_Nil: "closing_orders tk sl [] = []"
  by (simp add: closing_orders_def)

lemma closing_orders_Cons:
  "closing_orders tk sl (pos # ps) =
     (case closing_order tk sl pos of
        None \<Rightarrow> closing_orders tk sl ps
      | Some c \<Rightarrow> c # closing_orders tk sl ps)"
  by (simp add: closing_orders_def split: option.splits)

lemma close_loop_dry_run:
  assumes "\<forall>p\<in>set ps. pos_szi p \<noteq> 0"
  shows "\<exists>entries.
           close_loop ex tk True sl calls ps = (entries, calls) \<and>
           length entries = length ps \<and>
           (\<forall>i<length ps.
              entries ! i =
                (case closing_order tk sl (ps ! i) of
                   None \<Rightarrow> closing_entry tk sl (ps ! i) ''skipped'' None None
                 | Some c \<Rightarrow> closing_entry tk sl (ps ! i) ''dry-run'' None None))"
  using assms
proof (induction ps)
  case Nil
  show ?case by simp
next
  case (Cons pos rest)
  let ?entry = "case closing_order tk sl pos of
                   None \<Rightarrow> closing_entry tk sl pos ''skipped'' None None
                 | Some c \<Rightarrow> closing_entry tk sl pos ''dry-run'' None None"
  have nz: "pos_szi pos \<noteq> 0" using Cons.prems by simp
  have one: "close_one ex tk True sl calls pos = (Some ?entry, calls)"
  proof (cases "closing_order tk sl pos")
    case None
    with close_one_unpriced [OF nz None] show ?thesis by simp
  next
    case (Some c)
    with close_one_dry_run [OF nz Some] show ?thesis by simp
  qed
  from Cons obtain entries where rest: "close_loop ex tk True sl calls rest = (entries, calls)"
    and len: "length entries = length rest"
    and at: "\<forall>i<length rest.
              entries ! i =
                (case closing_order tk sl (rest ! i) of
                   None \<Rightarrow> closing_entry tk sl (rest ! i) ''skipped'' None None
                 | Some c \<Rightarrow> closing_entry tk sl (rest ! i) ''dry-run'' None None)"
    by auto
  have loop: "close_loop ex tk True sl calls (pos # rest) = (?entry # entries, calls)"
    by (simp add: one rest)
  have "\<forall>i<length (pos # rest).
              (?entry # entries) ! i =
                (case closing_order tk sl ((pos # rest) ! i) of
                   None \<Rightarrow> closing_entry tk sl ((pos # rest) ! i) ''skipped'' None None
                 | Some c \<Rightarrow> closing_entry tk sl ((pos # rest) ! i) ''dry-run'' None None)"
  proof (intro allI impI)
    fix i assume "i < length (pos # rest)"
    then show "(?entry # entries) ! i =
                (case closing_order tk sl ((pos # rest) ! i) of
                   None \<Rightarrow> closing_entry tk sl ((pos # rest) ! i) ''skipped'' None None
                 | Some c \<Rightarrow> closing_entry tk sl ((pos # rest) ! i) ''dry-run'' None None)"
    proof (cases i)
      case 0
      show ?thesis unfolding 0 by (simp cong: option.case_cong)
    next
      case (Suc j)
      with \<open>i < length (pos # rest)\<close> have "j < length rest" by simp
      with at show ?thesis unfolding Suc by (simp cong: option.case_cong)
    qed
  qed
  with loop len show ?case by simp
qed

lemma close_loop_live:
  assumes "\<forall>p\<in>set ps. pos_szi p \<noteq> 0"
  shows "\<exists>entries.
           close_loop (Some e) tk False sl calls ps = (entries, calls @ closing_orders tk sl ps) \<and>
           length entries = length ps \<and>
           (\<forall>i<length ps.
              entries ! i =
                (case closing_order tk sl (ps ! i) of
                   None \<Rightarrow> closing_entry tk sl (ps ! i) ''skipped'' None None
                 | Some c \<Rightarrow>
                    (case e (calls @ closing_orders tk sl (take i ps)) c of
                       Inr r \<Rightarrow> closing_entry tk sl (ps ! i) ''submitted'' (Some r) None
                     | Inl x \<Rightarrow> closing_entry tk sl (ps ! i) ''error'' None (Some x))))"
  using assms
proof (induction ps arbitrary: calls)
  case Nil
  show ?case by (simp add: closing_orders_Nil)
next
  case (Cons pos rest)
  have nz: "pos_szi pos \<noteq> 0" using Cons.prems by simp
  have rest_nz: "\<forall>p\<in>set rest. pos_szi p \<noteq> 0" using Cons.prems by simp
  show ?case
  proof (cases "closing_order tk sl pos")
    case None
    let ?entry = "closing_entry tk sl pos ''skipped'' None None"
    have one: "close_one (Some e) tk False sl calls pos = (Some ?entry, calls)"
      using close_one_unpriced [OF nz None] by simp
    from Cons.IH [OF rest_nz, of calls]
    obtain entries where
      rest: "close_loop (Some e) tk False sl calls rest = (entries, calls @ closing_orders tk sl rest)"
      and len: "length entries = length rest"
      and at: "\<forall>i<length rest.
              entries ! i =
                (case closing_order tk sl (rest ! i) of
                   None \<Rightarrow> closing_entry tk sl (rest ! i) ''skipped'' None None
                 | Some c \<Rightarrow>
                    (case e (calls @ closing_orders tk sl (take i rest)) c of
                       Inr r \<Rightarrow> closing_entry tk sl (rest ! i) ''submitted'' (Some r) None
                     | Inl x \<Rightarrow> closing_entry tk sl (rest ! i) ''error'' None (Some x)))"
      by blast
    have loop: "close_loop (Some e) tk False sl calls (pos # rest) =
        (?entry # entries, calls @ closing_orders tk sl (pos # rest))"
      by (simp add: one rest closing_orders_Cons None)
    have "\<forall>i<length (pos # rest).
              (?entry # entries) ! i =
                (case closing_order tk sl ((pos # rest) ! i) of
                   None \<Rightarrow> closing_entry tk sl ((pos # rest) ! i) ''skipped'' None None
                 | Some c \<Rightarrow>
                    (case e (calls @ closing_orders tk sl (take i (pos # rest))) c of
                       Inr r \<Rightarrow> closing_entry tk sl ((pos # rest) ! i) ''submitted'' (Some r) None
                     | Inl x \<Rightarrow> closing_entry tk sl ((pos # rest) ! i) ''error'' None (Some x)))"
    proof (intro allI impI)
      fix i assume "i < length (pos # rest)"
      then show "(?entry # entries) ! i =
                (case closing_order tk sl ((pos # rest) ! i) of
                   None \<Rightarrow> closing_entry tk sl ((pos # rest) ! i) ''skipped'' None None
                 | Some c \<Rightarrow>
                    (case e (calls @ closing_orders tk sl (take i (pos # rest))) c of
                       Inr r \<Rightarrow> closing_entry tk sl ((pos # rest) ! i) ''submitted'' (Some r) None
                     | Inl x \<Rightarrow> closing_entry tk sl ((pos # rest) ! i) ''error'' None (Some x)))"
      proof (cases i)
        case 0
        show ?thesis unfolding 0 using None by (simp cong: option.case_cong sum.case_cong)
      next
        case (Suc j)
        with \<open>i < length (pos # rest)\<close> have "j < length rest" by simp
        with at show ?thesis unfolding Suc using None
          by (simp add: closing_orders_Cons cong: option.case_cong sum.case_cong)
      qed
    qed
    with loop len show ?thesis by simp
  next
    case (Some c)
    let ?entry = "case e calls c of
                    Inr r \<Rightarrow> closing_entry tk sl pos ''submitted'' (Some r) None
                  | Inl x \<Rightarrow> closing_entry tk sl pos ''error'' None (Some x)"
    have one: "close_one (Some e) tk False sl calls pos = (Some ?entry, calls @ [c])"
      using close_one_live [OF nz Some] by simp
    from Cons.IH [OF rest_nz, of "calls @ [c]"]
    obtain entries where
      rest: "close_loop (Some e) tk False sl (calls @ [c]) rest =
               (entries, (calls @ [c]) @ closing_orders tk sl rest)"
      and len: "length entries = length rest"
      and at: "\<forall>i<length rest.
              entries ! i =
                (case closing_order tk sl (rest ! i) of
                   None \<Rightarrow> closing_entry tk sl (rest ! i) ''skipped'' None None
                 | Some c' \<Rightarrow>
                    (case e ((calls @ [c]) @ closing_orders tk sl (take i rest)) c' of
                       Inr r \<Rightarrow> closing_entry tk sl (rest ! i) ''submitted'' (Some r) None
                     | Inl x \<Rightarrow> closing_entry tk sl (rest ! i) ''error'' None (Some x)))"
      by blast
    have loop: "close_loop (Some e) tk False sl calls (pos # rest) =
        (?entry # entries, calls @ closing_orders tk sl (pos # rest))"
      by (simp add: one rest closing_orders_Cons Some)
    have "\<forall>i<length (pos # rest).
              (?entry # entries) ! i =
                (case closing_order tk sl ((pos # rest) ! i) of
                   None \<Rightarrow> closing_entry tk sl ((pos # rest) ! i) ''skipped'' None None
                 | Some c' \<Rightarrow>
                    (case e (calls @ closing_orders tk sl (take i (pos # rest))) c' of
                       Inr r \<Rightarrow> closing_entry tk sl ((pos # rest) ! i) ''submitted'' (Some r) None
                     | Inl x \<Rightarrow> closing_entry tk sl ((pos # rest) ! i) ''error'' None (Some x)))"
    proof (intro allI impI)
      fix i assume "i < length (pos # rest)"
      then show "(?entry # entries) ! i =
                (case closing_order tk sl ((pos # rest) ! i) of
                   None \<Rightarrow> closing_entry tk sl ((pos # rest) ! i) ''skipped'' None None
                 | Some c' \<Rightarrow>
                    (case e (calls @ closing_orders tk sl (take i (pos # rest))) c' of
                       Inr r \<Rightarrow> closing_entry tk sl ((pos # rest) ! i) ''submitted'' (Some r) None
                     | Inl x \<Rightarrow> closing_entry tk sl ((pos # rest) ! i) ''error'' None (Some x)))"
      proof (cases i)
        case 0
        show ?thesis unfolding 0 using Some
          by (simp add: closing_orders_Nil cong: option.case_cong sum.case_cong)
      next
        case (Suc j)
        with \<open>i < length (pos # rest)\<close> have "j < length rest" by simp
        with at show ?thesis unfolding Suc using Some
          by (simp add: closing_orders_Cons cong: option.case_cong sum.case_cong)
      qed
    qed
    with loop len show ?thesis by simp
  qed
qed

lemma open_positions_nonzero: "\<forall>p\<in>set (open_positions client). pos_szi p \<noteq> 0"
  by (auto simp: open_positions_def)

lemma close_positions_dry_run:
  "\<exists>entries.
     close_positions client True slippage = Inr (entries, []) \<and>
     length entries = length (open_positions client) \<and>
     (\<forall>i<length (open_positions client).
        entries ! i =
          (case closing_order (get_tickers client) slippage (open_positions client ! i) of
             None \<Rightarrow> closing_entry (get_tickers client) slippage (open_positions client ! i)
                       ''skipped'' None None
           | Some c \<Rightarrow> closing_entry (get_tickers client) slippage (open_positions client ! i)
                       ''dry-run'' None None))"
proof -
  from close_loop_dry_run [where ps = "open_positions client" and ex = None
      and tk = "get_tickers client" and sl = slippage and calls = "[]",
      OF open_positions_nonzero]
  obtain entries where
    loop: "close_loop None (get_tickers client) True slippage [] (open_positions client) =
             (entries, [])"
    and rest: "length entries = length (open_positions client)"
      "\<forall>i<length (open_positions client).
        entries ! i =
          (case closing_order (get_tickers client) slippage (open_positions client ! i) of
             None \<Rightarrow> closing_entry (get_tickers client) slippage (open_positions client ! i)
                       ''skipped'' None None
           | Some c \<Rightarrow> closing_entry (get_tickers client) slippage (open_positions client ! i)
                       ''dry-run'' None None)"
    by blast
  have "close_positions client True slippage = Inr (entries, [])"
  proof (cases "open_positions client = []")
    case True
    with rest(1) have "entries = []" by simp
    with True show ?thesis by (simp add: close_positions_def)
  next
    case False
    with loop show ?thesis by (simp add: close_positions_def)
  qed
  with rest show ?thesis by blast
qed

lemma close_positions_live:
  assumes "exchange_handle client = Some e"
  shows "\<exists>entries.
     close_positions client False slippage =
       Inr (entries, closing_orders (get_tickers client) slippage (open_positions client)) \<and>
     length entries = length (open_positions client) \<and>
     (\<forall>i<length (open_positions client).
        entries ! i =
          (case closing_order (get_tickers client) slippage (open_positions client ! i) of
             None \<Rightarrow> closing_entry (get_tickers client) slippage (open_positions client ! i)
                       ''skipped'' None None
           | Some c \<Rightarrow>
              (case e (closing_orders (get_tickers client) slippage
                         (take i (open_positions client))) c of
                 Inr r \<Rightarrow> closing_entry (get_tickers client) slippage (open_positions client ! i)
                           ''submitted'' (Some r) None
               | Inl x \<Rightarrow> closing_entry (get_tickers client) slippage (open_positions client ! i)
                           ''error'' None (Some x))))"
proof -
  from close_loop_live [where ps = "open_positions client" and e = e
      and tk = "get_tickers client" and sl = slippage and calls = "[]",
      OF open_positions_nonzero]
  obtain entries where
    loop: "close_loop (Some e) (get_tickers client) False slippage [] (open_positions client) =
             (entries, closing_orders (get_tickers client) slippage (open_positions client))"
    and rest: "length entries = length (open_positions client)"
      "\<forall>i<length (open_positions client).
        entries ! i =
          (case closing_order (get_tickers client) slippage (open_positions client ! i) of
             None \<Rightarrow> closing_entry (get_tickers client) slippage (open_positions client ! i)
                       ''skipped'' None None
           | Some c \<Rightarrow>
              (case e (closing_orders (get_tickers client) slippage
                         (take i (open_positions client))) c of
                 Inr r \<Rightarrow> closing_entry (get_tickers client) slippage (open_positions client ! i)
                           ''submitted'' (Some r) None
               | Inl x \<Rightarrow> closing_entry (get_tickers client) slippage (open_positions client ! i)
                           ''error'' None (Some x)))"
    by (auto cong: option.case_cong sum.case_cong)
  have "close_positions client False slippage =
       Inr (entries, closing_orders (get_tickers client) slippage (open_positions client))"
  proof (cases "open_positions client = []")
    case True
    with rest(1) have "entries = []" by simp
    with True show ?thesis by (simp add: close_positions_def closing_orders_Nil)
  next
    case False
    with loop assms show ?thesis by (simp add: close_positions_def require_exchange_def)
  qed
  with rest show ?thesis by blast
qed

lemma close_positions_without_exchange:
  assumes "exchange_handle client = None" and "open_positions client \<noteq> []"
  shows "close_positions client False slippage =
           Inl (ValueError ''HYPERLIQUID_PRIVATE_KEY must be configured to submit orders'')"
  using assms by (simp add: close_positions_def require_exchange_def)

lemma closing_order_fields:
  assumes "closing_order tickers slippage pos = Some c"
  shows "reduce_only c \<and> tif c = ''Ioc'' \<and> sz c = \<bar>pos_szi pos\<bar> \<and>
         is_buy c = (pos_szi pos < 0) \<and> coin c = symbol_to_coin (pos_symbol pos) \<and>
         (\<exists>mid_px. ticker_price (tickers (pos_symbol pos)) = Some mid_px \<and> mid_px \<noteq> 0 \<and>
            limit_px c = (if pos_szi pos < 0 then mid_px * (1 + slippage)
                          else mid_px * (1 - slippage)))"
  using assms by (auto simp: closing_order_def split: option.splits if_splits)

lemma closing_order_None_iff:
  "closing_order tickers slippage pos = None \<longleftrightarrow>
     \<not> truthy (ticker_price (tickers (pos_symbol pos)))"
  by (auto simp: closing_order_def truthy_def split: option.splits)

text \<open>
  C8. \<open>open_positions\<close> are the positions with non-zero quantity, \<open>closing_order\<close> is
  the order of a position and \<open>closing_entry\<close> its summary entry. In a dry run,
  \<^verbatim>\<open>close_positions\<close> returns one entry for each open position, in order, and calls
  the exchange for none: a skipped entry when the price is missing or zero, a dry-run
  entry with the limit price otherwise. Live with an exchange handle, the calls to the
  exchange are exactly the orders of the priced positions, in order, and the entry of
  each priced position follows what the exchange answered to its order, after the orders
  of the positions before it: a submitted entry holding the response when the call
  returned, an error entry holding the exception when it raised, the loop going on in
  both cases. The order of a position is reduce-only and immediate-or-cancel, sized at
  the absolute quantity, a buy for a short and a sell for a long position, at
  \<open>mid * (1 + slippage)\<close> for a buy and \<open>mid * (1 - slippage)\<close> for a sell; there is none
  exactly when the price is missing or zero. Live without an exchange handle and with an
  open position, \<^verbatim>\<open>close_positions\<close> raises before it computes any order. The last
  conjunct is the example: a position of \<open>- 2.5\<close> with slippage 0.02 and mid 100.
\<close>

theorem C8_flattener_orders:
  "(\<exists>entries.
      close_positions client True slippage = Inr (entries, []) \<and>
      length entries = length (open_positions client) \<and>
      (\<forall>i<length (open_positions client).
         entries ! i =
           (case closing_order (get_tickers client) slippage (open_positions client ! i) of
              None \<Rightarrow> closing_entry (get_tickers client) slippage (open_positions client ! i)
                        ''skipped'' None None
            | Some c \<Rightarrow> closing_entry (get_tickers client) slippage (open_positions client ! i)
                        ''dry-run'' None None))) \<and>
   (exchange_handle client = Some e \<longrightarrow>
     (\<exists>entries.
        close_positions client False slippage =
          Inr (entries, closing_orders (get_tickers client) slippage (open_positions client)) \<and>
        length entries = length (open_positions client) \<and>
        (\<forall>i<length (open_positions client).
           entries ! i =
             (case closing_order (get_tickers client) slippage (open_positions client ! i) of
                None \<Rightarrow> closing_entry (get_tickers client) slippage (open_positions client ! i)
                          ''skipped'' None None
              | Some c \<Rightarrow>
                 (case e (closing_orders (get_tickers client) slippage
                            (take i (open_positions client))) c of
                    Inr r \<Rightarrow> closing_entry (get_tickers client) slippage
                              (open_positions client ! i) ''submitted'' (Some r) None
                  | Inl x \<Rightarrow> closing_entry (get_tickers client) slippage
                              (open_positions client ! i) ''error'' None (Some x)))))) \<and>
   (closing_order tickers slippage pos = Some c \<longrightarrow>
      reduce_only c \<and> tif c = ''Ioc'' \<and> sz c = \<bar>pos_szi pos\<bar> \<and>
      is_buy c = (pos_szi pos < 0) \<and> coin c = symbol_to_coin (pos_symbol pos) \<and>
      (\<exists>mid_px. ticker_price (tickers (pos_symbol pos)) = Some mid_px \<and> mid_px \<noteq> 0 \<and>
         limit_px c = (if pos_szi pos < 0 then mid_px * (1 + slippage)
                       else mid_px * (1 - slippage)))) \<and>
   (closing_order tickers slippage pos = None \<longleftrightarrow>
      \<not> truthy (ticker_price (tickers (pos_symbol pos)))) \<and>
   (exchange_handle client = None \<and> open_positions client \<noteq> [] \<longrightarrow>
      close_positions client False slippage =
        Inl (ValueError ''HYPERLIQUID_PRIVATE_KEY must be configured to submit orders'')) \<and>
   close_positions short_client False (2 / 100) =
     Inr ([\<lparr>os_symbol = ''SOL-PERP'', os_side = ''BUY'', os_size = 5 / 2,
            os_limit_price = Some 102, os_status = ''submitted'',
            os_response = Some ''ok'', os_error = None\<rparr>],
          [\<lparr>coin = ''SOL'', is_buy = True, sz = 5 / 2, limit_px = 102,
            tif = ''Ioc'', reduce_only = True\<rparr>])"
proof (intro conjI impI)
  show "\<exists>entries.
      close_positions client True slippage = Inr (entries, []) \<and>
      length entries = length (open_positions client) \<and>
      (\<forall>i<length (open_positions client).
         entries ! i =
           (case closing_order (get_tickers client) slippage (open_positions client ! i) of
              None \<Rightarrow> closing_entry (get_tickers client) slippage (open_positions client ! i)
                        ''skipped'' None None
            | Some c \<Rightarrow> closing_entry (get_tickers client) slippage (open_positions client ! i)
                        ''dry-run'' None None))"
    by (rule close_positions_dry_run)
next
  assume "exchange_handle client = Some e"
  then show "\<exists>entries.
        close_positions client False slippage =
          Inr (entries, closing_orders (get_tickers client) slippage (open_positions client)) \<and>
        length entries = length (open_positions client) \<and>
        (\<forall>i<length (open_positions client).
           entries ! i =
             (case closing_order (get_tickers client) slippage (open_positions client ! i) of
                None \<Rightarrow> closing_entry (get_tickers client) slippage (open_positions client ! i)
                          ''skipped'' None None
              | Some c \<Rightarrow>
                 (case e (closing_orders (get_tickers client) slippage
                            (take i (open_positions client))) c of
                    Inr r \<Rightarrow> closing_entry (get_tickers client) slippage
                              (open_positions client ! i) ''submitted'' (Some r) None
                  | Inl x \<Rightarrow> closing_entry (get_tickers client) slippage
                              (open_positions client ! i) ''error'' None (Some x))))"
    by (rule close_positions_live)
next
  assume c: "closing_order tickers slippage pos = Some c"
  from closing_order_fields [OF c]
  show "reduce_only c" and "tif c = ''Ioc''" and "sz c = \<bar>pos_szi pos\<bar>"
    and "is_buy c = (pos_szi pos < 0)" and "coin c = symbol_to_coin (pos_symbol pos)"
    and "\<exists>mid_px. ticker_price (tickers (pos_symbol pos)) = Some mid_px \<and> mid_px \<noteq> 0 \<and>
         limit_px c = (if pos_szi pos < 0 then mid_px * (1 + slippage)
                       else mid_px * (1 - slippage))"
    by simp_all
next
  show "closing_order tickers slippage pos = None \<longleftrightarrow>
      \<not> truthy (ticker_price (tickers (pos_symbol pos)))"
    by (rule closing_order_None_iff)
next
  assume "exchange_handle client = None \<and> open_positions client \<noteq> []"
  then show "close_positions client False slippage =
        Inl (ValueError ''HYPERLIQUID_PRIVATE_KEY must be configured to submit orders'')"
    by (simp add: close_positions_without_exchange)
next
  show "close_positions short_client False (2 / 100) =
     Inr ([\<lparr>os_symbol = ''SOL-PERP'', os_side = ''BUY'', os_size = 5 / 2,
            os_limit_price = Some 102, os_status = ''submitted'',
            os_response = Some ''ok'', os_error = None\<rparr>],
          [\<lparr>coin = ''SOL'', is_buy = True, sz = 5 / 2, limit_px = 102,
            tif = ''Ioc'', reduce_only = True\<rparr>])"
    by code_simp
qed

theorem C8_flattener_orders_witness:
  "\<exists>entries.
     close_positions mixed_client False (2 / 100) =
       Inr (entries, closing_orders mixed_tickers (2 / 100) mixed_positions) \<and>
     length entries = 3 \<and>
     close_positions mixed_client False (2 / 100) =
       Inr ([\<lparr>os_symbol = ''SOL-PERP'', os_side = ''BUY'', os_size = 5 / 2,
              os_limit_price = Some 102, os_status = ''error'', os_response = None,
              os_error = Some (ExchangeFailure ''rejected'')\<rparr>,
             \<lparr>os_symbol = ''BTC-PERP'', os_side = ''SELL'', os_size = 1,
              os_limit_price = None, os_status = ''skipped'', os_response = None,
              os_error = None\<rparr>,
             \<lparr>os_symbol = ''ETH-PERP'', os_side = ''SELL'', os_size = 2,
              os_limit_price = Some 49, os_status = ''submitted'',
              os_response = Some ''ok'', os_error = None\<rparr>],
            [\<lparr>coin = ''SOL'', is_buy = True, sz = 5 / 2, limit_px = 102,
              tif = ''Ioc'', reduce_only = True\<rparr>,
             \<lparr>coin = ''ETH'', is_buy = False, sz = 2, limit_px = 49,
              tif = ''Ioc'', reduce_only = True\<rparr>])"
proof -
  have h: "exchange_handle mixed_client = Some buy_refusing_exchange"
    by (simp add: mixed_client_def)
  have ps: "open_positions mixed_client = mixed_positions" by code_simp
  have tk: "get_tickers mixed_client = mixed_tickers" by (simp add: mixed_client_def)
  have "exchange_handle client = Some e \<longrightarrow>
     (\<exists>entries.
        close_positions client False slippage =
          Inr (entries, closing_orders (get_tickers client) slippage (open_positions client)) \<and>
        length entries = length (open_positions client))" for client e slippage
    using C8_flattener_orders [of client slippage e] by blast
  from this [of mixed_client buy_refusing_exchange "2 / 100"] h
  obtain entries where "close_positions mixed_client False (2 / 100) =
       Inr (entries, closing_orders mixed_tickers (2 / 100) mixed_positions)"
    and "length entries = 3"
    by (auto simp: ps tk mixed_positions_def)
  moreover have "close_positions mixed_client False (2 / 100) =
       Inr ([\<lparr>os_symbol = ''SOL-PERP'', os_side = ''BUY'', os_size = 5 / 2,
              os_limit_price = Some 102, os_status = ''error'', os_response = None,
              os_error = Some (ExchangeFailure ''rejected'')\<rparr>,
             \<lparr>os_symbol = ''BTC-PERP'', os_side = ''SELL'', os_size = 1,
              os_limit_price = None, os_status = ''skipped'', os_response = None,
              os_error = None\<rparr>,
             \<lparr>os_symbol = ''ETH-PERP'', os_side = ''SELL'', os_size = 2,
              os_limit_price = Some 49, os_status = ''submitted'',
              os_response = Some ''ok'', os_error = None\<rparr>],
            [\<lparr>coin = ''SOL'', is_buy = True, sz = 5 / 2, limit_px = 102,
              tif = ''Ioc'', reduce_only = True\<rparr>,
             \<lparr>coin = ''ETH'', is_buy = False, sz = 2, limit_px = 49,
              tif = ''Ioc'', reduce_only = True\<rparr>])"
    by code_simp
  ultimately show ?thesis by blast
qed

text \<open>
  C8, the code without a private key. Three positions are open, two of them priced; a
  live call computes no order and records no entry: it raises the error of
  \<^verbatim>\<open>_require_exchange\<close>.
\<close>

theorem C8_without_exchange_counterexample:
  "open_positions keyless_client = mixed_positions \<and>
   close_positions keyless_client False (2 / 100) =
     Inl (ValueError ''HYPERLIQUID_PRIVATE_KEY must be configured to submit orders'')"
  by code_simp

section \<open>Verification: polling the provider\<close>

lemma sort_reverse_descending:
  "sorted_wrt (\<lambda>a b. key b \<le> key a) (sort_reverse key xs)"
proof -
  have "sorted (map key (sort_key key (rev xs)))" by (rule sorted_sort_key)
  then have "sorted_wrt (\<lambda>a b. key a \<le> key b) (sort_key key (rev xs))"
    by (simp add: sorted_wrt_map)
  then show ?thesis by (simp add: sort_reverse_def sorted_wrt_rev)
qed

lemma set_sort_reverse: "set (sort_reverse key xs) = set xs"
  by (simp add: sort_reverse_def)

lemma sort_reverse_head:
  assumes "xs \<noteq> []"
  shows "\<exists>m rest. sort_reverse key xs = m # rest \<and> m \<in> set xs \<and> (\<forall>x\<in>set xs. key x \<le> key m)"
proof (cases "sort_reverse key xs")
  case Nil
  then have "set xs = {}" using set_sort_reverse [of key xs] by simp
  with assms show ?thesis by simp
next
  case (Cons m rest)
  have "sorted_wrt (\<lambda>a b. key b \<le> key a) (m # rest)"
    using sort_reverse_descending [of key xs] Cons by simp
  then have le: "\<forall>x\<in>set rest. key x \<le> key m" by simp
  have s: "set xs = insert m (set rest)"
    using set_sort_reverse [of key xs] Cons by simp
  from le s have "\<forall>x\<in>set xs. key x \<le> key m" by auto
  with Cons s show ?thesis by auto
qed

lemma sort_reverse_Nil: "sort_reverse key [] = []"
  by (simp add: sort_reverse_def)

lemma poll_loop_no_message:
  assumes "no_message (fetch a)" and "0 \<le> iv"
  shows "poll_loop fetch iv (Suc r) a sl =
           poll_loop fetch iv r (Suc a) (if a \<noteq> 0 then sl @ [iv] else sl)"
  using assms
  by (cases "fetch a")
     (simp_all add: no_message_def fetch_chat_messages_def sort_reverse_Nil Let_def)

lemma poll_loop_hit:
  assumes "fetch a = ChatList ms" and "provider_messages ms \<noteq> []" and "0 \<le> iv"
  shows "\<exists>m. poll_loop fetch iv (Suc r) a sl =
               (Inr (message m), if a \<noteq> 0 then sl @ [iv] else sl) \<and>
             m \<in> set (provider_messages ms) \<and>
             (\<forall>x\<in>set (provider_messages ms). timestamp_key x \<le> timestamp_key m)"
proof -
  from sort_reverse_head [OF assms(2), of timestamp_key]
  obtain m rest where s: "sort_reverse timestamp_key (provider_messages ms) = m # rest"
    and m: "m \<in> set (provider_messages ms)"
      "\<forall>x\<in>set (provider_messages ms). timestamp_key x \<le> timestamp_key m"
    by blast
  have "poll_loop fetch iv (Suc r) a sl = (Inr (message m), if a \<noteq> 0 then sl @ [iv] else sl)"
    using assms(1,3) s by (simp add: fetch_chat_messages_def Let_def)
  with m show ?thesis by blast
qed

lemma poll_loop_other_payload:
  assumes "fetch a = ChatOther" and "0 \<le> iv"
  shows "poll_loop fetch iv (Suc r) a sl =
           (Inl (AgentMarketError ''Unexpected chat payload''),
            if a \<noteq> 0 then sl @ [iv] else sl)"
  using assms by (simp add: fetch_chat_messages_def Let_def)

lemma poll_loop_negative_interval:
  assumes "iv < 0" and "a \<noteq> 0"
  shows "poll_loop fetch iv (Suc r) a sl =
           (Inl (ValueError ''sleep length must be non-negative''), sl)"
  using assms by simp

lemma slept_step:
  "(if a \<noteq> 0 then replicate (a - 1) iv @ [iv] else replicate (a - 1) iv) = replicate a (iv::real)"
  by (cases a) (simp_all add: replicate_append_same)

lemma poll_loop_skip:
  assumes "0 \<le> iv" and "\<forall>k. a \<le> k \<and> k < a + j \<longrightarrow> no_message (fetch k)"
  shows "poll_loop fetch iv (j + r) a (replicate (a - 1) iv) =
           poll_loop fetch iv r (a + j) (replicate (a + j - 1) iv)"
  using assms(2)
proof (induction j arbitrary: a)
  case 0
  show ?case by simp
next
  case (Suc j)
  then have q: "no_message (fetch a)" by simp
  have step: "poll_loop fetch iv (Suc (j + r)) a (replicate (a - 1) iv) =
                poll_loop fetch iv (j + r) (Suc a) (replicate (Suc a - 1) iv)"
    using poll_loop_no_message [where fetch = fetch and a = a and iv = iv and r = "j + r"
        and sl = "replicate (a - 1) iv", OF q assms(1)]
    by (simp only: slept_step) simp
  have "poll_loop fetch iv (j + r) (Suc a) (replicate (Suc a - 1) iv) =
          poll_loop fetch iv r (Suc a + j) (replicate (Suc a + j - 1) iv)"
    using Suc.prems by (intro Suc.IH) auto
  with step show ?case by simp
qed

lemma poll_reaches_attempt:
  assumes "0 \<le> poll_interval settings" and "n < nat (max_polls settings)"
    and "\<forall>k<n. no_message (fetch k)"
  shows "\<exists>r. poll_provider_message settings fetch =
               poll_loop fetch (poll_interval settings) (Suc r) n
                 (replicate (n - 1) (poll_interval settings))"
proof -
  from assms(2) obtain r where r: "nat (max_polls settings) = n + Suc r"
    by (metis less_iff_Suc_add add_Suc_right)
  have q: "\<forall>k. 0 \<le> k \<and> k < 0 + n \<longrightarrow> no_message (fetch k)" using assms(3) by simp
  from poll_loop_skip [where fetch = fetch and a = 0 and j = n and r = "Suc r", OF assms(1) q]
  have "poll_loop fetch (poll_interval settings) (n + Suc r) 0 [] =
          poll_loop fetch (poll_interval settings) (Suc r) n
            (replicate (n - 1) (poll_interval settings))"
    by simp
  with r show ?thesis by (auto simp: poll_provider_message_def)
qed

text \<open>
  C6. Attempts are numbered from 0 and the configured interval is not negative. If
  attempt \<open>n\<close> is within the configured maximum, every earlier attempt brought no message
  (the request failed, or the transcript had no provider message with content) and
  attempt \<open>n\<close> returns a transcript with such a message, then the poll returns the
  content of a qualifying message of that transcript whose timestamp key is greatest
  among the qualifying ones, after \<open>n\<close> sleeps of the configured interval: one before
  each attempt but the first. If attempt \<open>n\<close> instead brings a body that is not a list,
  the poll ends there with an \<^verbatim>\<open>AgentMarketError\<close>. If every configured attempt brings
  no message, the poll returns \<open>None\<close>. A failed request is a round without message and
  the loop goes on to the next attempt.
\<close>

theorem C6_poll_returns_latest:
  assumes "0 \<le> poll_interval settings"
  shows
  "(n < nat (max_polls settings) \<and> (\<forall>k<n. no_message (fetch k)) \<and>
    fetch n = ChatList ms \<and> provider_messages ms \<noteq> [] \<longrightarrow>
      (\<exists>m. poll_provider_message settings fetch =
             (Inr (message m), replicate n (poll_interval settings)) \<and>
           m \<in> set (provider_messages ms) \<and>
           (\<forall>x\<in>set (provider_messages ms). timestamp_key x \<le> timestamp_key m))) \<and>
   (n < nat (max_polls settings) \<and> (\<forall>k<n. no_message (fetch k)) \<and> fetch n = ChatOther \<longrightarrow>
      poll_provider_message settings fetch =
        (Inl (AgentMarketError ''Unexpected chat payload''),
         replicate n (poll_interval settings))) \<and>
   ((\<forall>k<nat (max_polls settings). no_message (fetch k)) \<longrightarrow>
      poll_provider_message settings fetch =
        (Inr None, replicate (nat (max_polls settings) - 1) (poll_interval settings))) \<and>
   (fetch a = ChatFailed e \<longrightarrow>
      no_message (fetch a) \<and>
      poll_loop fetch (poll_interval settings) (Suc r) a slept =
        poll_loop fetch (poll_interval settings) r (Suc a)
          (if a \<noteq> 0 then slept @ [poll_interval settings] else slept))"
proof (intro conjI impI)
  assume h: "n < nat (max_polls settings) \<and> (\<forall>k<n. no_message (fetch k)) \<and>
    fetch n = ChatList ms \<and> provider_messages ms \<noteq> []"
  then have "n < nat (max_polls settings)" and "\<forall>k<n. no_message (fetch k)" by simp_all
  with assms obtain r' where
    reach: "poll_provider_message settings fetch =
               poll_loop fetch (poll_interval settings) (Suc r') n
                 (replicate (n - 1) (poll_interval settings))"
    using poll_reaches_attempt by blast
  from h have f: "fetch n = ChatList ms" and p: "provider_messages ms \<noteq> []" by simp_all
  from poll_loop_hit [where fetch = fetch and a = n and iv = "poll_interval settings"
      and r = r' and sl = "replicate (n - 1) (poll_interval settings)", OF f p assms] reach
  show "\<exists>m. poll_provider_message settings fetch =
             (Inr (message m), replicate n (poll_interval settings)) \<and>
           m \<in> set (provider_messages ms) \<and>
           (\<forall>x\<in>set (provider_messages ms). timestamp_key x \<le> timestamp_key m)"
    by (simp only: slept_step)
next
  assume h: "n < nat (max_polls settings) \<and> (\<forall>k<n. no_message (fetch k)) \<and> fetch n = ChatOther"
  then have "n < nat (max_polls settings)" and "\<forall>k<n. no_message (fetch k)" by simp_all
  with assms obtain r' where
    reach: "poll_provider_message settings fetch =
               poll_loop fetch (poll_interval settings) (Suc r') n
                 (replicate (n - 1) (poll_interval settings))"
    using poll_reaches_attempt by blast
  from h have f: "fetch n = ChatOther" by simp
  from poll_loop_other_payload [where fetch = fetch and a = n and iv = "poll_interval settings"
      and r = r' and sl = "replicate (n - 1) (poll_interval settings)", OF f assms] reach
  show "poll_provider_message settings fetch =
        (Inl (AgentMarketError ''Unexpected chat payload''),
         replicate n (poll_interval settings))"
    by (simp only: slept_step)
next
  assume "\<forall>k<nat (max_polls settings). no_message (fetch k)"
  then have q: "\<forall>k. 0 \<le> k \<and> k < 0 + nat (max_polls settings) \<longrightarrow> no_message (fetch k)"
    by simp
  from poll_loop_skip [where fetch = fetch and a = 0 and j = "nat (max_polls settings)"
      and r = 0, OF assms q]
  show "poll_provider_message settings fetch =
        (Inr None, replicate (nat (max_polls settings) - 1) (poll_interval settings))"
    by (simp add: poll_provider_message_def)
next
  assume f: "fetch a = ChatFailed e"
  then show q: "no_message (fetch a)" by (simp add: no_message_def)
  from poll_loop_no_message [where fetch = fetch and a = a, OF q assms]
  show "poll_loop fetch (poll_interval settings) (Suc r) a slept =
        poll_loop fetch (poll_interval settings) r (Suc a)
          (if a \<noteq> 0 then slept @ [poll_interval settings] else slept)"
    by simp
qed

theorem C6_poll_returns_latest_witness:
  "\<exists>m. poll_provider_message default_agent_settings example_fetch =
         (Inr (message m), replicate 2 (poll_interval default_agent_settings)) \<and>
       m \<in> set (provider_messages example_transcript) \<and>
       poll_provider_message default_agent_settings example_fetch = (Inr (Some ''second''), [5, 5])"
proof -
  have iv: "0 \<le> poll_interval default_agent_settings"
    by (simp add: default_agent_settings_def)
  have b: "(2::nat) < nat (max_polls default_agent_settings)"
    by (simp add: default_agent_settings_def)
  have q: "\<forall>k<2. no_message (example_fetch k)"
    by (auto simp: example_fetch_def no_message_def provider_messages_def less_Suc_eq
        numeral_2_eq_2)
  have f: "example_fetch 2 = ChatList example_transcript"
    by (simp add: example_fetch_def)
  have p: "provider_messages example_transcript \<noteq> []"
    by (simp add: provider_messages_def example_transcript_def)
  have v: "poll_provider_message default_agent_settings example_fetch = (Inr (Some ''second''), [5, 5])"
    by code_simp
  have "n < nat (max_polls settings) \<and> (\<forall>k<n. no_message (fetch k)) \<and>
        fetch n = ChatList ms \<and> provider_messages ms \<noteq> [] \<longrightarrow>
          (\<exists>m. poll_provider_message settings fetch =
                 (Inr (message m), replicate n (poll_interval settings)) \<and>
               m \<in> set (provider_messages ms) \<and>
               (\<forall>x\<in>set (provider_messages ms). timestamp_key x \<le> timestamp_key m))"
    if "0 \<le> poll_interval settings" for n settings fetch ms
    using C6_poll_returns_latest [OF that, of n fetch ms] by (rule conjunct1)
  from this [OF iv, of 2 example_fetch example_transcript] b q f p
  obtain m where "poll_provider_message default_agent_settings example_fetch =
         (Inr (message m), replicate 2 (poll_interval default_agent_settings))"
    and "m \<in> set (provider_messages example_transcript)"
    by blast
  with v show ?thesis by blast
qed

text \<open>
  C6, the code at two sequences of outcomes the statement above leaves out. The first
  attempt brings a body that is not a list and the second the transcript with two
  qualifying messages: the poll raises at the first attempt and never sees the second.
  With an interval of \<open>- 1\<close>, the first attempt fails on the network and the sleep
  before the second raises a \<^verbatim>\<open>ValueError\<close>.
\<close>

theorem C6_other_payload_counterexample:
  "other_then_list 1 = ChatList example_transcript \<and>
   provider_messages example_transcript \<noteq> [] \<and>
   poll_provider_message default_agent_settings other_then_list =
     (Inl (AgentMarketError ''Unexpected chat payload''), []) \<and>
   poll_provider_message negative_interval_settings example_fetch =
     (Inl (ValueError ''sleep length must be non-negative''), [])"
  by code_simp

section \<open>Verification: the provider builder\<close>

lemma build_rejects:
  assumes "lower mode \<noteq> ''auto''" and "lower mode \<noteq> ''agent''"
  shows "\<exists>msg. build_analysis_provider mode env = Inl (ValueError msg)"
  using assms by (simp add: build_analysis_provider_def Let_def)

lemma build_without_key:
  assumes "api_key env = []"
  shows "\<exists>msg. build_analysis_provider mode env = Inl (ValueError msg)"
  using assms by (simp add: build_analysis_provider_def new_agent_market_client_def Let_def)

lemma build_accepts:
  assumes "lower mode = ''auto'' \<or> lower mode = ''agent''" and "api_key env \<noteq> []"
  shows "\<exists>c. new_agent_market_client env = Inr c \<and>
             build_analysis_provider mode env = Inr (AgentMarketAnalysisProvider c, None)"
  using assms by (auto simp: build_analysis_provider_def new_agent_market_client_def Let_def)

lemma build_fallback_empty:
  assumes "build_analysis_provider mode env = Inr (provider, fallback)"
  shows "fallback = None"
  using assms
  by (auto simp: build_analysis_provider_def Let_def split: if_splits sum.splits exn.splits)

text \<open>
  C9. The mode is compared after lowering its case. A mode that is then neither
  \<open>auto\<close> nor \<open>agent\<close> is refused with a \<^verbatim>\<open>ValueError\<close>; for the two valid modes, with
  an API key in the environment, the builder returns the agent provider paired with
  \<open>None\<close>; whatever the input, a pair it returns has \<open>None\<close> in the fallback slot, and so
  has the maker that \<^verbatim>\<open>main\<close> builds from it.
\<close>

theorem C9_fallback_slot_empty:
  "(lower mode \<noteq> ''auto'' \<and> lower mode \<noteq> ''agent'' \<longrightarrow>
      (\<exists>msg. build_analysis_provider mode env = Inl (ValueError msg))) \<and>
   ((lower mode = ''auto'' \<or> lower mode = ''agent'') \<and> api_key env \<noteq> [] \<longrightarrow>
      (\<exists>c. new_agent_market_client env = Inr c \<and>
           build_analysis_provider mode env = Inr (AgentMarketAnalysisProvider c, None))) \<and>
   (build_analysis_provider mode env = Inr (provider, fallback) \<longrightarrow> fallback = None) \<and>
   (main_maker mode env client settings = Inr maker \<longrightarrow> maker_fallback_provider maker = None)"
proof (intro conjI impI)
  assume "lower mode \<noteq> ''auto'' \<and> lower mode \<noteq> ''agent''"
  then show "\<exists>msg. build_analysis_provider mode env = Inl (ValueError msg)"
    using build_rejects by blast
next
  assume "(lower mode = ''auto'' \<or> lower mode = ''agent'') \<and> api_key env \<noteq> []"
  then show "\<exists>c. new_agent_market_client env = Inr c \<and>
           build_analysis_provider mode env = Inr (AgentMarketAnalysisProvider c, None)"
    using build_accepts by blast
next
  assume "build_analysis_provider mode env = Inr (provider, fallback)"
  then show "fallback = None" by (rule build_fallback_empty)
next
  assume m: "main_maker mode env client settings = Inr maker"
  then obtain p f where b: "build_analysis_provider mode env = Inr (p, f)"
    and mk: "maker = \<lparr>maker_client = client, maker_analysis_provider = p,
               maker_fallback_provider = f, maker_settings = settings\<rparr>"
    by (auto simp: main_maker_def split: sum.splits prod.splits)
  from b have "f = None" by (rule build_fallback_empty)
  with mk show "maker_fallback_provider maker = None" by simp
qed

theorem C9_fallback_slot_empty_witness:
  "(\<exists>msg. build_analysis_provider ''http'' default_agent_settings = Inl (ValueError msg)) \<and>
   (\<exists>c. build_analysis_provider ''auto'' default_agent_settings =
          Inr (AgentMarketAnalysisProvider c, None))"
proof -
  have r: "lower ''http'' \<noteq> ''auto'' \<and> lower ''http'' \<noteq> ''agent''" by code_simp
  have a: "(lower ''auto'' = ''auto'' \<or> lower ''auto'' = ''agent'') \<and>
           api_key default_agent_settings \<noteq> []" by code_simp
  from C9_fallback_slot_empty [of "''http''" default_agent_settings] r
  have 1: "\<exists>msg. build_analysis_provider ''http'' default_agent_settings = Inl (ValueError msg)"
    by blast
  from C9_fallback_slot_empty [of "''auto''" default_agent_settings] a
  have 2: "\<exists>c. build_analysis_provider ''auto'' default_agent_settings =
          Inr (AgentMarketAnalysisProvider c, None)"
    by blast
  from 1 2 show ?thesis by blast
qed

text \<open>
  C9 as stated fails on the case of the mode: \<open>AUTO\<close> is neither \<open>auto\<close> nor \<open>agent\<close>,
  and the builder accepts it. It also fails for a valid mode without an API key: the
  builder raises instead of returning a pair.
\<close>

theorem C9_uppercase_mode_counterexample:
  "''AUTO'' \<noteq> ''auto'' \<and> ''AUTO'' \<noteq> ''agent'' \<and>
   build_analysis_provider ''AUTO'' default_agent_settings =
     Inr (AgentMarketAnalysisProvider
            \<lparr>client_settings = default_agent_settings,
             client_base = ''https://api.agent.market''\<rparr>, None) \<and>
   build_analysis_provider ''auto'' keyless_agent_settings =
     Inl (ValueError ''AGENT_MARKET_API_KEY must be set to run the Avellaneda analysis now that the HTTP fallback is gone.'')"
  by code_simp

section \<open>Verification: parsing the provider's answer\<close>












































end
